theory Spec2Isabelle
  imports Complex_Main "HOL-Library.Log_Nat"
begin

section \<open>Python floats: IEEE 754 binary64 with round-to-nearest, ties-to-even\<close>

text \<open>
  Every number in \<^verbatim>\<open>backend/server.py\<close> that the deal economics touches is a Python
  \<^verbatim>\<open>float\<close>. A finite float is modelled by the rational number it denotes; the two
  infinities and NaN are separate values. The two signed zeros are identified (Python's
  \<^verbatim>\<open>==\<close> identifies them as well). An arithmetic operation computes the exact rational
  result and rounds it to the nearest representable value (\<open>fl\<close>), which is what the
  hardware does for \<^verbatim>\<open>*\<close> and \<^verbatim>\<open>-\<close>. No float operation used by the source raises.
\<close>

datatype pyfloat = Fin rat | PInf | NInf | NaN

text \<open>Nearest integer, ties to the even one.\<close>

definition round_half_even :: "rat \<Rightarrow> int" where
  "round_half_even x =
     (let f = \<lfloor>x\<rfloor>; d = x - of_int f
      in if d < 1 / 2 then f
         else if 1 / 2 < d then f + 1
         else if even f then f else f + 1)"

text \<open>\<open>ilog2 x\<close> is the binary exponent of a positive \<open>x\<close>: \<open>2 powi ilog2 x \<le> x < 2 powi (ilog2 x + 1)\<close>.\<close>

definition ilog2 :: "rat \<Rightarrow> int" where
  "ilog2 x = (if 1 \<le> x then bitlen \<lfloor>x\<rfloor> - 1 else - bitlen (\<lceil>1 / x\<rceil> - 1))"

text \<open>The exponent of the smallest subnormal, and the first power of two beyond the finite range.\<close>

definition emin :: int where
  "emin = - 1074"

definition huge :: rat where
  "huge = 2 ^ 1024"

text \<open>The exponent of the unit in the last place of a 53-bit significand around \<open>x\<close>.\<close>

definition ulp_exp :: "rat \<Rightarrow> int" where
  "ulp_exp x = max (ilog2 \<bar>x\<bar> - 52) emin"

definition fl_fin :: "rat \<Rightarrow> rat" where
  "fl_fin x = (if x = 0 then 0
     else of_int (round_half_even (x / 2 powi ulp_exp x)) * 2 powi ulp_exp x)"

definition fl :: "rat \<Rightarrow> pyfloat" where
  "fl x = (let y = fl_fin x
           in if huge \<le> y then PInf else if y \<le> - huge then NInf else Fin y)"

text \<open>A rational is a finite float when rounding leaves it where it is.\<close>

definition is_double :: "rat \<Rightarrow> bool" where
  "is_double x \<longleftrightarrow> fl x = Fin x"

text \<open>Python's \<^verbatim>\<open>a * b\<close> and \<^verbatim>\<open>a - b\<close> on floats.\<close>

fun fmul :: "pyfloat \<Rightarrow> pyfloat \<Rightarrow> pyfloat" where
  "fmul (Fin x) (Fin y) = fl (x * y)"
| "fmul NaN _ = NaN"
| "fmul _ NaN = NaN"
| "fmul (Fin x) PInf = (if x = 0 then NaN else if 0 < x then PInf else NInf)"
| "fmul (Fin x) NInf = (if x = 0 then NaN else if 0 < x then NInf else PInf)"
| "fmul PInf (Fin y) = (if y = 0 then NaN else if 0 < y then PInf else NInf)"
| "fmul NInf (Fin y) = (if y = 0 then NaN else if 0 < y then NInf else PInf)"
| "fmul PInf PInf = PInf"
| "fmul PInf NInf = NInf"
| "fmul NInf PInf = NInf"
| "fmul NInf NInf = PInf"

fun fsub :: "pyfloat \<Rightarrow> pyfloat \<Rightarrow> pyfloat" where
  "fsub (Fin x) (Fin y) = fl (x - y)"
| "fsub NaN _ = NaN"
| "fsub _ NaN = NaN"
| "fsub PInf PInf = NaN"
| "fsub NInf NInf = NaN"
| "fsub PInf _ = PInf"
| "fsub NInf _ = NInf"
| "fsub (Fin x) PInf = NInf"
| "fsub (Fin x) NInf = PInf"

text \<open>
  \<^verbatim>\<open>round(x, 2)\<close> on a float: the exact value is rounded to two decimals, ties to the
  even digit, and the decimal result is converted back to the nearest float. Infinities and
  NaN round to themselves.
\<close>

fun py_round2 :: "pyfloat \<Rightarrow> pyfloat" where
  "py_round2 (Fin x) = fl (of_int (round_half_even (x * 100)) / 100)"
| "py_round2 v = v"

text \<open>The literals \<^verbatim>\<open>0.70\<close> and \<^verbatim>\<open>0.30\<close>: the floats nearest to 7/10 and 3/10.\<close>

definition lit_0_70 :: pyfloat where
  "lit_0_70 = fl (7 / 10)"

definition lit_0_30 :: pyfloat where
  "lit_0_30 = fl (3 / 10)"

section \<open>Data model\<close>

datatype LeadStage = RAW | WARM | HOT | DEAL | DNC | LEAD_DEAD

datatype DealStatus = UNDER_CONTRACT | IN_DISPOSITION | CLOSING | CLOSED | DEAD

record Lead =
  id' :: string
  property_address :: string
  city :: string
  county :: string
  zip_code :: string
  owner_name :: string
  phone_1 :: string
  phone_2 :: "string option"
  phone_3 :: "string option"
  data_source :: string
  motivation_score :: int
  asking_price :: "pyfloat option"
  property_type :: string
  bedrooms :: "int option"
  bathrooms :: "pyfloat option"
  sqft :: "int option"
  condition :: string
  is_vacant :: bool
  has_mortgage :: bool
  mortgage_balance :: "pyfloat option"
  stage :: LeadStage
  assigned_agent :: "string option"
  do_not_call :: bool
  total_attempts :: int
  last_called_at :: "string option"
  notes' :: "string option"
  created_at :: string

record Deal =
  id' :: string
  lead_id :: string
  property_address :: string
  arv :: pyfloat
  rehab_estimate :: pyfloat
  contract_price :: pyfloat
  assignment_fee :: pyfloat
  max_allowable_offer :: pyfloat
  profit_estimate :: pyfloat
  status :: DealStatus
  contract_signed_date :: "string option"
  closing_date :: "string option"
  buyer_id :: "string option"
  buyer_name :: "string option"
  title_company :: "string option"
  earnest_money :: pyfloat
  notes' :: "string option"
  created_at :: string

text \<open>
  A request body for \<^verbatim>\<open>POST /deals\<close> as it arrives: the fields that \<^verbatim>\<open>DealCreate\<close>
  declares with a default may be absent; the others are required by the type.
\<close>

record DealCreate_body =
  lead_id :: string
  property_address :: string
  arv :: pyfloat
  rehab_estimate :: pyfloat
  contract_price :: pyfloat
  assignment_fee :: "pyfloat option"
  contract_signed_date :: "string option"
  closing_date :: "string option"
  title_company :: "string option"
  earnest_money :: "pyfloat option"
  notes' :: "string option"

record DealCreate =
  lead_id :: string
  property_address :: string
  arv :: pyfloat
  rehab_estimate :: pyfloat
  contract_price :: pyfloat
  assignment_fee :: pyfloat
  contract_signed_date :: "string option"
  closing_date :: "string option"
  title_company :: "string option"
  earnest_money :: pyfloat
  notes' :: "string option"

record DealUpdate =
  status :: "DealStatus option"
  buyer_id :: "string option"
  buyer_name :: "string option"
  closing_date :: "string option"
  notes' :: "string option"

text \<open>The defaults of \<^verbatim>\<open>DealCreate\<close>: \<^verbatim>\<open>assignment_fee: float = 10000\<close>, \<^verbatim>\<open>earnest_money: float = 0\<close>.\<close>

definition DealCreate_validate :: "DealCreate_body \<Rightarrow> DealCreate" where
  "DealCreate_validate b =
     \<lparr> DealCreate.lead_id = DealCreate_body.lead_id b,
       DealCreate.property_address = DealCreate_body.property_address b,
       DealCreate.arv = DealCreate_body.arv b,
       DealCreate.rehab_estimate = DealCreate_body.rehab_estimate b,
       DealCreate.contract_price = DealCreate_body.contract_price b,
       DealCreate.assignment_fee =
         (case DealCreate_body.assignment_fee b of None \<Rightarrow> Fin 10000 | Some v \<Rightarrow> v),
       DealCreate.contract_signed_date = DealCreate_body.contract_signed_date b,
       DealCreate.closing_date = DealCreate_body.closing_date b,
       DealCreate.title_company = DealCreate_body.title_company b,
       DealCreate.earnest_money =
         (case DealCreate_body.earnest_money b of None \<Rightarrow> Fin 0 | Some v \<Rightarrow> v),
       DealCreate.notes' = DealCreate_body.notes' b \<rparr>"

section \<open>The document store\<close>

text \<open>
  A collection is the list of its documents in insertion order. \<^verbatim>\<open>insert_one\<close> appends,
  \<^verbatim>\<open>find_one\<close> returns the first document that matches, \<^verbatim>\<open>update_one\<close> changes the
  first document that matches and reports how many it matched (0 or 1).
\<close>

record db =
  deals :: "Deal list"
  leads :: "Lead list"

datatype http_error = HTTPException (status_code: nat) (detail: string)

definition insert_one :: "'a \<Rightarrow> 'a list \<Rightarrow> 'a list" where
  "insert_one doc coll = coll @ [doc]"

fun find_one :: "('a \<Rightarrow> bool) \<Rightarrow> 'a list \<Rightarrow> 'a option" where
  "find_one p [] = None"
| "find_one p (x # xs) = (if p x then Some x else find_one p xs)"

fun update_one :: "('a \<Rightarrow> bool) \<Rightarrow> ('a \<Rightarrow> 'a) \<Rightarrow> 'a list \<Rightarrow> 'a list \<times> nat" where
  "update_one p f [] = ([], 0)"
| "update_one p f (x # xs) =
     (if p x then (f x # xs, 1)
      else (x # fst (update_one p f xs), snd (update_one p f xs)))"

section \<open>Deal endpoints\<close>

text \<open>
  The expression of lines 409 and 613, \<^verbatim>\<open>(arv * 0.70) - rehab - assignment_fee\<close>, and the
  one of line 410, \<^verbatim>\<open>arv - contract_price - rehab_estimate - assignment_fee\<close>; Python
  evaluates both from left to right.
\<close>

definition mao_expr :: "pyfloat \<Rightarrow> pyfloat \<Rightarrow> pyfloat \<Rightarrow> pyfloat" where
  "mao_expr arv' rehab fee = fsub (fsub (fmul arv' lit_0_70) rehab) fee"

definition profit_expr :: "pyfloat \<Rightarrow> pyfloat \<Rightarrow> pyfloat \<Rightarrow> pyfloat \<Rightarrow> pyfloat" where
  "profit_expr arv' price rehab fee = fsub (fsub (fsub arv' price) rehab) fee"

text \<open>
  \<^verbatim>\<open>create_deal\<close>. The fresh identifier and the timestamp that the \<^verbatim>\<open>Deal\<close> model
  generates are parameters.
\<close>

definition create_deal :: "db \<Rightarrow> string \<Rightarrow> string \<Rightarrow> DealCreate \<Rightarrow> db \<times> Deal" where
  "create_deal d new_id now deal_data =
     (let mao = mao_expr (DealCreate.arv deal_data) (DealCreate.rehab_estimate deal_data)
                  (DealCreate.assignment_fee deal_data);
          profit = profit_expr (DealCreate.arv deal_data) (DealCreate.contract_price deal_data)
                  (DealCreate.rehab_estimate deal_data) (DealCreate.assignment_fee deal_data);
          deal = \<lparr> Deal.id' = new_id,
                   Deal.lead_id = DealCreate.lead_id deal_data,
                   Deal.property_address = DealCreate.property_address deal_data,
                   Deal.arv = DealCreate.arv deal_data,
                   Deal.rehab_estimate = DealCreate.rehab_estimate deal_data,
                   Deal.contract_price = DealCreate.contract_price deal_data,
                   Deal.assignment_fee = DealCreate.assignment_fee deal_data,
                   Deal.max_allowable_offer = mao,
                   Deal.profit_estimate = profit,
                   Deal.status = UNDER_CONTRACT,
                   Deal.contract_signed_date = DealCreate.contract_signed_date deal_data,
                   Deal.closing_date = DealCreate.closing_date deal_data,
                   Deal.buyer_id = None,
                   Deal.buyer_name = None,
                   Deal.title_company = DealCreate.title_company deal_data,
                   Deal.earnest_money = DealCreate.earnest_money deal_data,
                   Deal.notes' = DealCreate.notes' deal_data,
                   Deal.created_at = now \<rparr>;
          d1 = d\<lparr>deals := insert_one deal (deals d)\<rparr>;
          d2 = d1\<lparr>leads := fst (update_one (\<lambda>l. Lead.id' l = DealCreate.lead_id deal_data)
                                  (\<lambda>l. l\<lparr>Lead.stage := DEAL\<rparr>) (leads d1))\<rparr>
      in (d2, deal))"

text \<open>The \<^verbatim>\<open>$set\<close> document of \<^verbatim>\<open>update_deal\<close>: the fields of the update that are not None.\<close>

definition no_update_data :: "DealUpdate \<Rightarrow> bool" where
  "no_update_data u \<longleftrightarrow>
     DealUpdate.status u = None \<and> DealUpdate.buyer_id u = None \<and> DealUpdate.buyer_name u = None
     \<and> DealUpdate.closing_date u = None \<and> DealUpdate.notes' u = None"

definition set_fields :: "DealUpdate \<Rightarrow> Deal \<Rightarrow> Deal" where
  "set_fields u doc =
     (let d1 = (case DealUpdate.status u of None \<Rightarrow> doc | Some v \<Rightarrow> doc\<lparr>Deal.status := v\<rparr>);
          d2 = (case DealUpdate.buyer_id u of None \<Rightarrow> d1 | Some v \<Rightarrow> d1\<lparr>Deal.buyer_id := Some v\<rparr>);
          d3 = (case DealUpdate.buyer_name u of None \<Rightarrow> d2 | Some v \<Rightarrow> d2\<lparr>Deal.buyer_name := Some v\<rparr>);
          d4 = (case DealUpdate.closing_date u of None \<Rightarrow> d3 | Some v \<Rightarrow> d3\<lparr>Deal.closing_date := Some v\<rparr>);
          d5 = (case DealUpdate.notes' u of None \<Rightarrow> d4 | Some v \<Rightarrow> d4\<lparr>Deal.notes' := Some v\<rparr>)
      in d5)"

definition update_deal :: "db \<Rightarrow> string \<Rightarrow> DealUpdate \<Rightarrow> http_error + (db \<times> Deal option)" where
  "update_deal d deal_id update =
     (if no_update_data update then Inl (HTTPException 400 ''No update data provided'')
      else
        let result = update_one (\<lambda>doc. Deal.id' doc = deal_id) (set_fields update) (deals d)
        in if snd result = 0 then Inl (HTTPException 404 ''Deal not found'')
           else Inr (d\<lparr>deals := fst result\<rparr>,
                     find_one (\<lambda>doc. Deal.id' doc = deal_id) (fst result)))"

text \<open>A sequence of \<^verbatim>\<open>PATCH /deals/{deal_id}\<close> requests; a rejected request leaves the store as it was.\<close>

fun run_updates :: "db \<Rightarrow> (string \<times> DealUpdate) list \<Rightarrow> db" where
  "run_updates d [] = d"
| "run_updates d ((deal_id, update) # rest) =
     run_updates (case update_deal d deal_id update of Inl e \<Rightarrow> d | Inr r \<Rightarrow> fst r) rest"

section \<open>The deal calculator\<close>

text \<open>\<^verbatim>\<open>data.get(key, default)\<close>\<close>

definition dict_get :: "(string \<rightharpoonup> pyfloat) \<Rightarrow> string \<Rightarrow> pyfloat \<Rightarrow> pyfloat" where
  "dict_get data key dflt = (case data key of None \<Rightarrow> dflt | Some v \<Rightarrow> v)"

definition profit_at_mao_expr :: "pyfloat \<Rightarrow> pyfloat \<Rightarrow> pyfloat \<Rightarrow> pyfloat" where
  "profit_at_mao_expr arv' rehab fee =
     fsub (fsub (fsub arv' (mao_expr arv' rehab fee)) rehab) fee"

definition calculate_mao :: "(string \<rightharpoonup> pyfloat) \<Rightarrow> (string \<times> pyfloat) list" where
  "calculate_mao data =
     (let arv' = dict_get data ''arv'' (Fin 0);
          rehab = dict_get data ''rehab_estimate'' (Fin 0);
          fee = dict_get data ''assignment_fee'' (Fin 10000);
          mao = mao_expr arv' rehab fee;
          profit_at_mao = fsub (fsub (fsub arv' mao) rehab) fee
      in [(''arv'', arv'),
          (''rehab_estimate'', rehab),
          (''assignment_fee'', fee),
          (''max_allowable_offer'', py_round2 mao),
          (''profit_at_mao'', py_round2 profit_at_mao),
          (''seventy_percent_arv'', py_round2 (fmul arv' lit_0_70))])"

text \<open>
  Every finite float is an integer multiple of the smallest subnormal; differences of such
  multiples are rounded without an underflow error.
\<close>

definition on_grid :: "rat \<Rightarrow> bool" where
  "on_grid x = (\<exists>n::int. x = of_int n * 2 powi emin)"

section \<open>Example inputs\<close>

text \<open>
  A store with one lead and a request body that leaves out every optional field; the
  concrete instances of the theorems below are evaluated on them.
\<close>

definition example_lead :: Lead where
  "example_lead =
     \<lparr> Lead.id' = ''sample_lead_1'', Lead.property_address = ''1234 Main St'',
       Lead.city = ''Houston'', Lead.county = ''Harris'', Lead.zip_code = ''77001'',
       Lead.owner_name = ''John Smith'', Lead.phone_1 = ''+17135551234'',
       Lead.phone_2 = None, Lead.phone_3 = None, Lead.data_source = ''tax_delinquent'',
       Lead.motivation_score = 8, Lead.asking_price = Some (Fin 95000),
       Lead.property_type = ''single_family'', Lead.bedrooms = None, Lead.bathrooms = None,
       Lead.sqft = None, Lead.condition = ''unknown'', Lead.is_vacant = False,
       Lead.has_mortgage = True, Lead.mortgage_balance = None, Lead.stage = HOT,
       Lead.assigned_agent = None, Lead.do_not_call = False, Lead.total_attempts = 0,
       Lead.last_called_at = None, Lead.notes' = None, Lead.created_at = ''2026-01-01'' \<rparr>"

definition example_body :: DealCreate_body where
  "example_body =
     \<lparr> DealCreate_body.lead_id = ''sample_lead_1'',
       DealCreate_body.property_address = ''1234 Main St, Houston TX'',
       DealCreate_body.arv = Fin 200000, DealCreate_body.rehab_estimate = Fin 35000,
       DealCreate_body.contract_price = Fin 85000, DealCreate_body.assignment_fee = None,
       DealCreate_body.contract_signed_date = None, DealCreate_body.closing_date = None,
       DealCreate_body.title_company = None, DealCreate_body.earnest_money = None,
       DealCreate_body.notes' = None \<rparr>"

definition example_db :: db where
  "example_db = \<lparr> deals = [], leads = [example_lead] \<rparr>"

definition sample_deal :: Deal where
  "sample_deal =
     \<lparr> Deal.id' = ''deal_1'', Deal.lead_id = ''sample_lead_1'',
       Deal.property_address = ''1234 Main St, Houston TX'',
       Deal.arv = Fin 180000, Deal.rehab_estimate = Fin 35000,
       Deal.contract_price = Fin 85000, Deal.assignment_fee = Fin 12000,
       Deal.max_allowable_offer = Fin 79000, Deal.profit_estimate = Fin 48000,
       Deal.status = IN_DISPOSITION, Deal.contract_signed_date = None,
       Deal.closing_date = None, Deal.buyer_id = None, Deal.buyer_name = None,
       Deal.title_company = None, Deal.earnest_money = Fin 0, Deal.notes' = None,
       Deal.created_at = ''2026-01-01'' \<rparr>"

definition seeded_db :: db where
  "seeded_db = \<lparr> deals = [sample_deal], leads = [example_lead] \<rparr>"

definition close_update :: DealUpdate where
  "close_update =
     \<lparr> DealUpdate.status = Some CLOSED, DealUpdate.buyer_id = None,
       DealUpdate.buyer_name = None, DealUpdate.closing_date = None,
       DealUpdate.notes' = None \<rparr>"

section \<open>Properties of rounding\<close>

lemma ilog2_ge1:
  assumes "1 \<le> x"
  shows "2 powi (ilog2 x) \<le> x" and "x < 2 powi (ilog2 x + 1)"
proof -
  let ?n = "\<lfloor>x\<rfloor>"
  have n: "0 < ?n" using assms by simp
  have b: "2 ^ nat (bitlen ?n - 1) \<le> ?n" "?n < 2 ^ nat (bitlen ?n)"
    using bitlen_bounds[OF n] by auto
  have b1: "1 \<le> bitlen ?n" using n by (simp add: bitlen_alt_def)
  have il: "ilog2 x = bitlen ?n - 1" using assms by (simp add: ilog2_def)
  have "(2::rat) powi (bitlen ?n - 1) = 2 ^ nat (bitlen ?n - 1)"
    using b1 by (simp add: power_int_nonneg_exp)
  also have "\<dots> = of_int (2 ^ nat (bitlen ?n - 1))" by simp
  also have "\<dots> \<le> of_int ?n" using b(1) by (simp only: of_int_le_iff)
  also have "\<dots> \<le> x" by simp
  finally show "2 powi (ilog2 x) \<le> x" by (simp add: il)
  have "?n + 1 \<le> 2 ^ nat (bitlen ?n)" using b(2) by simp
  then have "(of_int (?n + 1) :: rat) \<le> of_int (2 ^ nat (bitlen ?n))"
    by (simp only: of_int_le_iff)
  moreover have "x < of_int (?n + 1)" by linarith
  ultimately have "x < 2 ^ nat (bitlen ?n)" by simp
  moreover have "(2::rat) powi (bitlen ?n - 1 + 1) = 2 ^ nat (bitlen ?n)"
    using b1 by (simp add: power_int_nonneg_exp)
  ultimately show "x < 2 powi (ilog2 x + 1)" by (simp add: il)
qed

lemma ilog2_lt1:
  assumes "0 < x" "x < 1"
  shows "2 powi (ilog2 x) \<le> x" and "x < 2 powi (ilog2 x + 1)"
proof -
  define m where "m = \<lceil>1 / x\<rceil> - 1"
  define k where "k = nat (bitlen m)"
  have gt: "1 < 1 / x" using assms by simp
  then have c2: "2 \<le> \<lceil>1 / x\<rceil>" by linarith
  then have m: "0 < m" by (simp add: m_def)
  have b: "2 ^ nat (bitlen m - 1) \<le> m" "m < 2 ^ nat (bitlen m)"
    using bitlen_bounds[OF m] by auto
  have b1: "1 \<le> bitlen m" using m by (simp add: bitlen_alt_def)
  have il: "ilog2 x = - bitlen m" using assms by (simp add: ilog2_def m_def)
  have up: "1 / x \<le> of_int m + 1" unfolding m_def by simp
  have lo: "of_int m < 1 / x" unfolding m_def by linarith
  have "m + 1 \<le> 2 ^ k" using b(2) by (simp add: k_def)
  then have "(of_int (m + 1) :: rat) \<le> of_int (2 ^ k)"
    by (simp only: of_int_le_iff)
  then have "of_int m + 1 \<le> (2::rat) ^ k" by simp
  with up have le: "1 / x \<le> 2 ^ k" by linarith
  have p: "(2::rat) powi (- bitlen m) = 1 / 2 ^ k"
    using b1 by (simp add: power_int_minus_divide power_int_nonneg_exp k_def)
  have "1 / 2 ^ k \<le> x"
    using le assms(1) by (simp add: field_simps)
  then show "2 powi (ilog2 x) \<le> x" by (simp add: il p)
  define j where "j = nat (bitlen m - 1)"
  have "(of_int (2 ^ j) :: rat) \<le> of_int m"
    using b(1) unfolding j_def by (simp only: of_int_le_iff)
  then have "(2::rat) ^ j \<le> of_int m" by simp
  with lo have lt: "2 ^ j < 1 / x" by linarith
  have q: "(2::rat) powi (- (bitlen m - 1)) = 1 / 2 ^ j"
    using b1 unfolding j_def
    by (simp only: power_int_minus_divide) (simp add: power_int_nonneg_exp)
  have e: "ilog2 x + 1 = - (bitlen m - 1)" by (simp add: il)
  have "x < 1 / 2 ^ j"
    using lt assms(1) by (simp add: field_simps)
  then show "x < 2 powi (ilog2 x + 1)" by (simp only: e q)
qed

lemma ilog2_bounds:
  assumes "0 < x"
  shows "2 powi (ilog2 x) \<le> x" and "x < 2 powi (ilog2 x + 1)"
  using assms ilog2_ge1[of x] ilog2_lt1[of x] by (cases "1 \<le> x"; simp)+


lemma rhe_err: "\<bar>of_int (round_half_even y) - y\<bar> \<le> 1 / 2"
proof -
  have "of_int \<lfloor>y\<rfloor> \<le> y" "y < of_int \<lfloor>y\<rfloor> + 1" by linarith+
  then show ?thesis
    by (auto simp: round_half_even_def Let_def abs_le_iff)
qed

lemma rhe_of_int [simp]: "round_half_even (of_int n) = n"
  by (simp add: round_half_even_def Let_def)

lemma rhe_mono:
  assumes "x \<le> y"
  shows "round_half_even x \<le> round_half_even y"
proof (cases "\<lfloor>x\<rfloor> = \<lfloor>y\<rfloor>")
  case True
  then show ?thesis using assms
    by (auto simp: round_half_even_def Let_def)
next
  case False
  have "\<lfloor>x\<rfloor> \<le> \<lfloor>y\<rfloor>" using assms by (rule floor_mono)
  with False have lt: "\<lfloor>x\<rfloor> + 1 \<le> \<lfloor>y\<rfloor>" by simp
  have "round_half_even x \<le> \<lfloor>x\<rfloor> + 1"
    by (simp add: round_half_even_def Let_def)
  moreover have "\<lfloor>y\<rfloor> \<le> round_half_even y"
    by (simp add: round_half_even_def Let_def)
  ultimately show ?thesis using lt by linarith
qed

lemma rhe_minus: "round_half_even (- x) = - round_half_even x"
proof (cases "x = of_int \<lfloor>x\<rfloor>")
  case True
  then obtain n where "x = of_int n" ..
  then show ?thesis by (simp flip: of_int_minus)
next
  case False
  then have fl: "\<lfloor>- x\<rfloor> = - \<lfloor>x\<rfloor> - 1"
    by (metis Ints_of_int ceiling_altdef ceiling_def floor_minus of_int_floor_cancel add.commute
        minus_add_distrib uminus_add_conv_diff) 
  show ?thesis
    by (auto simp: round_half_even_def Let_def fl)
qed


lemma pow2_pos [simp]: "0 < (2::rat) powi e"
  by (simp add: power_int_def)

lemma fl_fin_0 [simp]: "fl_fin 0 = 0"
  by (simp add: fl_fin_def)

lemma fl_fin_err_ulp: "\<bar>fl_fin x - x\<bar> \<le> 2 powi ulp_exp x / 2"
proof (cases "x = 0")
  case True
  then show ?thesis by simp
next
  case False
  define p where "p = (2::rat) powi ulp_exp x"
  have p: "0 < p" by (simp add: p_def)
  have "fl_fin x - x = (of_int (round_half_even (x / p)) - x / p) * p"
    using False p by (simp add: fl_fin_def p_def field_simps)
  then have "\<bar>fl_fin x - x\<bar> = \<bar>of_int (round_half_even (x / p)) - x / p\<bar> * p"
    using p by (simp add: abs_mult)
  also have "\<dots> \<le> 1 / 2 * p"
    using rhe_err[of "x / p"] p by (intro mult_right_mono) simp_all
  finally show ?thesis by (simp add: p_def)
qed

lemma ulp_exp_ge: "emin \<le> ulp_exp x"
  by (simp add: ulp_exp_def)

lemma ulp_exp_cases:
  "ulp_exp x = emin \<or> ulp_exp x = ilog2 \<bar>x\<bar> - 52"
  by (auto simp: ulp_exp_def max_def)

lemma pow2_ilog2_le:
  assumes "x \<noteq> 0"
  shows "2 powi (ilog2 \<bar>x\<bar> - 52) \<le> \<bar>x\<bar> / 2 ^ 52"
proof -
  have "0 < \<bar>x\<bar>" using assms by simp
  then have "2 powi ilog2 \<bar>x\<bar> \<le> \<bar>x\<bar>" by (rule ilog2_bounds)
  moreover have "(2::rat) powi (ilog2 \<bar>x\<bar> - 52) = 2 powi ilog2 \<bar>x\<bar> / 2 ^ 52"
    by (simp add: power_int_diff)
  ultimately show ?thesis by (simp add: divide_right_mono)
qed

lemma fl_fin_err: "\<bar>fl_fin x - x\<bar> \<le> \<bar>x\<bar> / 2 ^ 53 + 2 powi emin / 2"
proof (cases "x = 0")
  case True
  then show ?thesis by simp
next
  case False
  define r where "r = \<bar>x\<bar> / 2 ^ 53"
  define h where "h = (2::rat) powi emin / 2"
  have r: "0 \<le> r" by (simp add: r_def)
  have h: "0 \<le> h" by (simp add: h_def)
  have e: "\<bar>fl_fin x - x\<bar> \<le> 2 powi ulp_exp x / 2" by (rule fl_fin_err_ulp)
  have "2 powi ulp_exp x / 2 \<le> r + h"
    using ulp_exp_cases[of x]
  proof
    assume "ulp_exp x = emin"
    then have "(2::rat) powi ulp_exp x / 2 = h"
      by (simp add: h_def)
    with r show ?thesis by linarith
  next
    assume a: "ulp_exp x = ilog2 \<bar>x\<bar> - 52"
    have "2 powi ulp_exp x / 2 \<le> \<bar>x\<bar> / 2 ^ 52 / 2"
      using pow2_ilog2_le[OF False] by (simp add: a)
    also have "\<dots> = r" by (simp add: r_def)
    finally show ?thesis using h by linarith
  qed
  with e show ?thesis unfolding r_def h_def by (rule order_trans)
qed


lemma fl_fin_minus: "fl_fin (- x) = - fl_fin x"
  by (simp add: fl_fin_def ulp_exp_def rhe_minus)

lemma fl_fin_exact:
  assumes "x = of_int n * 2 powi ulp_exp x"
  shows "fl_fin x = x"
proof (cases "x = 0")
  case True
  then show ?thesis by simp
next
  case False
  have "x / 2 powi ulp_exp x = of_int n"
    using assms by (metis nonzero_eq_divide_eq pow2_pos less_irrefl)
  then show ?thesis using False assms by (simp add: fl_fin_def)
qed

lemma on_grid_0 [simp]: "on_grid 0"
  unfolding on_grid_def by (rule exI[of _ 0]) simp

lemma on_grid_minus: "on_grid x \<Longrightarrow> on_grid (- x)"
  unfolding on_grid_def
proof -
  assume "\<exists>n. x = of_int n * 2 powi emin"
  then obtain n where "x = of_int n * 2 powi emin" ..
  then have "- x = of_int (- n) * 2 powi emin" by simp
  then show "\<exists>n. - x = of_int n * 2 powi emin" ..
qed

lemma on_grid_add: "on_grid x \<Longrightarrow> on_grid y \<Longrightarrow> on_grid (x + y)"
  unfolding on_grid_def
proof -
  assume "\<exists>n. x = of_int n * 2 powi emin" "\<exists>n. y = of_int n * 2 powi emin"
  then obtain n m where "x = of_int n * 2 powi emin" "y = of_int m * 2 powi emin"
    by blast
  then have "x + y = of_int (n + m) * 2 powi emin" by (simp add: algebra_simps)
  then show "\<exists>n. x + y = of_int n * 2 powi emin" ..
qed

lemma on_grid_diff: "on_grid x \<Longrightarrow> on_grid y \<Longrightarrow> on_grid (x - y)"
  using on_grid_add[of x "- y"] on_grid_minus[of y] by simp

lemma on_grid_fl_fin [simp]: "on_grid (fl_fin x)"
proof (cases "x = 0")
  case True
  then show ?thesis by simp
next
  case False
  define e where "e = ulp_exp x"
  define k where "k = round_half_even (x / 2 powi e)"
  have e: "0 \<le> e - emin" using ulp_exp_ge[of x] by (simp add: e_def)
  have "(2::rat) powi e = 2 powi (e - emin) * 2 powi emin"
    by (simp flip: power_int_add)
  also have "(2::rat) powi (e - emin) = of_int (2 ^ nat (e - emin))"
    using e by (simp add: power_int_nonneg_exp)
  finally have "fl_fin x = of_int (k * 2 ^ nat (e - emin)) * 2 powi emin"
    using False by (simp add: fl_fin_def e_def k_def)
  then show ?thesis unfolding on_grid_def ..
qed

lemma on_grid_err:
  assumes "on_grid z"
  shows "\<bar>fl_fin z - z\<bar> \<le> \<bar>z\<bar> / 2 ^ 53"
proof (cases "z = 0")
  case True
  then show ?thesis by simp
next
  case False
  from ulp_exp_cases[of z] show ?thesis
  proof
    assume a: "ulp_exp z = emin"
    from assms obtain n where "z = of_int n * 2 powi emin"
      unfolding on_grid_def ..
    then have "z = of_int n * 2 powi ulp_exp z" unfolding a .
    then have "fl_fin z = z" by (rule fl_fin_exact)
    then show ?thesis by simp
  next
    assume a: "ulp_exp z = ilog2 \<bar>z\<bar> - 52"
    have "\<bar>fl_fin z - z\<bar> \<le> 2 powi ulp_exp z / 2" by (rule fl_fin_err_ulp)
    also have "\<dots> \<le> \<bar>z\<bar> / 2 ^ 52 / 2"
      using pow2_ilog2_le[OF False] by (simp add: a)
    also have "\<dots> = \<bar>z\<bar> / 2 ^ 53" by simp
    finally show ?thesis .
  qed
qed


lemma rhe_nonneg: "0 \<le> x \<Longrightarrow> 0 \<le> round_half_even x"
  using rhe_mono[of 0 x] rhe_of_int[of 0] by simp

lemma fl_fin_nonneg: "0 \<le> x \<Longrightarrow> 0 \<le> fl_fin x"
  by (simp add: fl_fin_def rhe_nonneg)

lemma fl_fin_nonpos: "x \<le> 0 \<Longrightarrow> fl_fin x \<le> 0"
  using fl_fin_nonneg[of "- x"] by (simp add: fl_fin_minus)

lemma pow2_less_imp_less:
  assumes "(2::rat) powi m < 2 powi n"
  shows "m < n"
proof (rule ccontr)
  assume "\<not> m < n"
  then have "n \<le> m" by simp
  then have "(2::rat) powi n \<le> 2 powi m" by (intro power_int_increasing) simp_all
  with assms show False by simp
qed

lemma ilog2_mono:
  assumes "0 < x" "x \<le> y"
  shows "ilog2 x \<le> ilog2 y"
proof -
  have "2 powi ilog2 x \<le> x" using assms(1) by (rule ilog2_bounds)
  also have "x \<le> y" by fact
  also have "y < 2 powi (ilog2 y + 1)" using assms by (intro ilog2_bounds) simp
  finally have "(2::rat) powi ilog2 x < 2 powi (ilog2 y + 1)" .
  then have "ilog2 x < ilog2 y + 1"
    by (rule pow2_less_imp_less)
  then show ?thesis by simp
qed

lemma fl_fin_mono_pos:
  assumes "0 < x" "x \<le> y"
  shows "fl_fin x \<le> fl_fin y"
proof -
  have y: "0 < y" using assms by simp
  have xn: "x \<noteq> 0" and yn: "y \<noteq> 0" using assms by auto
  define ex where "ex = ulp_exp x"
  define ey where "ey = ulp_exp y"
  have le: "ex \<le> ey"
    using ilog2_mono[OF assms] assms y by (simp add: ex_def ey_def ulp_exp_def)
  have fx: "fl_fin x = of_int (round_half_even (x / 2 powi ex)) * 2 powi ex"
    using xn by (simp add: fl_fin_def ex_def)
  have fy: "fl_fin y = of_int (round_half_even (y / 2 powi ey)) * 2 powi ey"
    using yn by (simp add: fl_fin_def ey_def)
  show ?thesis
  proof (cases "ex = ey")
    case True
    have "x / 2 powi ey \<le> y / 2 powi ey"
      using assms(2) by (simp add: divide_right_mono)
    then have "round_half_even (x / 2 powi ey) \<le> round_half_even (y / 2 powi ey)"
      by (rule rhe_mono)
    then have "(of_int (round_half_even (x / 2 powi ey)) :: rat)
        \<le> of_int (round_half_even (y / 2 powi ey))"
      by (simp only: of_int_le_iff)
    then show ?thesis unfolding fx fy True
      by (simp add: mult_right_mono)
  next
    case False
    with le have lt: "ex < ey" by simp
    define b where "b = (2::rat) powi (ey + 52)"
    have ey: "ey = ilog2 y - 52"
      using lt ulp_exp_ge[of x] ulp_exp_cases[of y] y by (auto simp: ex_def ey_def)
    have b_le_y: "b \<le> y"
      using ilog2_bounds(1)[OF y] by (simp add: b_def ey)
    have "ilog2 x - 52 \<le> ex" using assms(1) by (simp add: ex_def ulp_exp_def)
    with lt have "ilog2 x + 1 \<le> ey + 52" by simp
    then have "(2::rat) powi (ilog2 x + 1) \<le> b"
      unfolding b_def by (intro power_int_increasing) simp_all
    with ilog2_bounds(2)[OF assms(1)] have xb: "x \<le> b" by simp
    define N where "N = (2::int) ^ nat (ey + 52 - ex)"
    have bN: "b = of_int N * 2 powi ex"
    proof -
      have "0 \<le> ey + 52 - ex" using lt by simp
      then have "(2::rat) powi (ey + 52 - ex) = of_int N"
        by (simp add: N_def power_int_nonneg_exp)
      moreover have "b = 2 powi (ey + 52 - ex) * 2 powi ex"
        unfolding b_def by (simp flip: power_int_add)
      ultimately show ?thesis by simp
    qed
    have "x / 2 powi ex \<le> of_int N"
      using xb unfolding bN by (simp add: field_simps)
    then have "round_half_even (x / 2 powi ex) \<le> round_half_even (of_int N)"
      by (rule rhe_mono)
    then have "(of_int (round_half_even (x / 2 powi ex)) :: rat) \<le> of_int N"
      by simp
    then have 1: "fl_fin x \<le> b" unfolding fx bN
      by (simp add: mult_right_mono)
    have bM: "b = of_int (2 ^ 52) * 2 powi ey"
      unfolding b_def by (simp add: power_int_add)
    have "of_int (2 ^ 52) \<le> y / 2 powi ey"
      using b_le_y unfolding bM by (simp add: field_simps)
    then have "round_half_even (of_int (2 ^ 52)) \<le> round_half_even (y / 2 powi ey)"
      by (rule rhe_mono)
    then have "(of_int (2 ^ 52) :: rat) \<le> of_int (round_half_even (y / 2 powi ey))"
      unfolding rhe_of_int by (simp only: of_int_le_iff)
    then have 2: "b \<le> fl_fin y" unfolding fy bM
      by (intro mult_right_mono) simp_all
    from 1 2 show ?thesis by simp
  qed
qed

lemma fl_fin_mono:
  assumes "x \<le> y"
  shows "fl_fin x \<le> fl_fin y"
proof -
  consider "0 < x" | "x \<le> 0" "0 \<le> y" | "y < 0" by linarith
  then show ?thesis
  proof cases
    case 1
    then show ?thesis using assms by (rule fl_fin_mono_pos)
  next
    case 2
    then show ?thesis using fl_fin_nonpos[of x] fl_fin_nonneg[of y] by simp
  next
    case 3
    then have "0 < - y" "- y \<le> - x" using assms by simp_all
    then have "fl_fin (- y) \<le> fl_fin (- x)" by (rule fl_fin_mono_pos)
    then show ?thesis by (simp add: fl_fin_minus)
  qed
qed

lemma ilog2_less:
  assumes "0 < x" "x < 2 powi k"
  shows "ilog2 x < k"
proof -
  have "2 powi ilog2 x \<le> x" using assms(1) by (rule ilog2_bounds)
  with assms(2) have "(2::rat) powi ilog2 x < 2 powi k" by simp
  then show ?thesis by (rule pow2_less_imp_less)
qed

lemma fl_fin_repr:
  assumes x: "x = of_int m * 2 powi e" and m: "\<bar>m\<bar> < 2 ^ 53" and e: "emin \<le> e"
  shows "fl_fin x = x"
proof (cases "x = 0")
  case True
  then show ?thesis by simp
next
  case False
  have "\<bar>x\<bar> = of_int \<bar>m\<bar> * 2 powi e"
    unfolding x by (simp add: abs_mult)
  also have "\<dots> < of_int (2 ^ 53) * 2 powi e"
    using m by (intro mult_strict_right_mono) (simp_all only: of_int_less_iff pow2_pos)
  also have "\<dots> = 2 powi (e + 53)" by (simp add: power_int_add)
  finally have "\<bar>x\<bar> < 2 powi (e + 53)" .
  moreover have "0 < \<bar>x\<bar>" using False by simp
  ultimately have "ilog2 \<bar>x\<bar> < e + 53" by (intro ilog2_less)
  then have le: "ulp_exp x \<le> e" using e by (simp add: ulp_exp_def)
  define d where "d = nat (e - ulp_exp x)"
  have "(2::rat) powi e = 2 powi (e - ulp_exp x) * 2 powi ulp_exp x"
    by (simp flip: power_int_add)
  also have "(2::rat) powi (e - ulp_exp x) = of_int (2 ^ d)"
    using le by (simp add: d_def power_int_nonneg_exp)
  finally have "x = of_int (m * 2 ^ d) * 2 powi ulp_exp x"
    unfolding x by simp
  then show ?thesis by (rule fl_fin_exact)
qed

lemma fl_finite:
  assumes "\<bar>fl_fin x\<bar> < huge"
  shows "fl x = Fin (fl_fin x)"
  using assms by (simp add: fl_def Let_def abs_less_iff not_le)

lemma fl_int:
  assumes "\<bar>n\<bar> < 2 ^ 53"
  shows "fl (of_int n) = Fin (of_int n)"
proof -
  have "fl_fin (of_int n) = of_int n"
    by (rule fl_fin_repr[of _ n 0]) (use assms in \<open>simp_all add: emin_def\<close>)
  moreover have "\<bar>(of_int n :: rat)\<bar> < huge"
  proof -
    have "\<bar>(of_int n :: rat)\<bar> = of_int \<bar>n\<bar>" by simp
    also have "\<dots> < of_int (2 ^ 53)" using assms by (simp only: of_int_less_iff)
    also have "\<dots> < huge" by (simp add: huge_def)
    finally show ?thesis .
  qed
  ultimately show ?thesis using fl_finite[of "of_int n"] by simp
qed

lemma fl_numeral [simp]:
  "numeral k < (9007199254740992::int) \<Longrightarrow> fl (numeral k) = Fin (numeral k)"
  "numeral k < (9007199254740992::int) \<Longrightarrow> fl (- numeral k) = Fin (- numeral k)"
  using fl_int[of "numeral k"] fl_int[of "- numeral k"] by simp_all

lemma fl_0 [simp]: "fl 0 = Fin 0"
  using fl_int[of 0] by simp

lemma fl_1 [simp]: "fl 1 = Fin 1"
  using fl_int[of 1] by simp

lemma ilog2_eqI:
  assumes "2 powi k \<le> x" "x < 2 powi (k + 1)"
  shows "ilog2 x = k"
proof -
  have pos: "0 < x" using assms(1) pow2_pos[of k] by linarith
  have "ilog2 x < k + 1" using pos assms(2) by (rule ilog2_less)
  moreover have "(2::rat) powi k < 2 powi (ilog2 x + 1)"
    using assms(1) ilog2_bounds(2)[OF pos] by linarith
  then have "k < ilog2 x + 1" by (rule pow2_less_imp_less)
  ultimately show ?thesis by simp
qed

lemma fl_fin_abs: "fl_fin \<bar>x\<bar> = \<bar>fl_fin x\<bar>"
proof (cases "0 \<le> x")
  case True
  then show ?thesis using fl_fin_nonneg[of x] by simp
next
  case False
  then have "x \<le> 0" by simp
  then show ?thesis using fl_fin_nonpos[of x] by (simp add: fl_fin_minus)
qed

lemma fl_fin_pow2:
  assumes "emin \<le> k"
  shows "fl_fin (2 powi k) = 2 powi k"
  by (rule fl_fin_repr[of _ 1 k]) (use assms in simp_all)

lemma fl_fin_le_pow2:
  assumes "\<bar>x\<bar> \<le> 2 powi k" "emin \<le> k"
  shows "\<bar>fl_fin x\<bar> \<le> 2 powi k"
proof -
  have "fl_fin \<bar>x\<bar> \<le> fl_fin (2 powi k)" using assms(1) by (rule fl_fin_mono)
  then show ?thesis using fl_fin_pow2[OF assms(2)] by (simp add: fl_fin_abs)
qed

lemma pow2_lt_huge:
  assumes "k \<le> 1023"
  shows "(2::rat) powi k < huge"
proof -
  have "(2::rat) powi k \<le> 2 powi 1023"
    using assms by (intro power_int_increasing) simp_all
  also have "\<dots> < huge" by (simp add: huge_def)
  finally show ?thesis .
qed

lemma fl_bounded:
  assumes "\<bar>x\<bar> \<le> 2 powi k" "emin \<le> k" "k \<le> 1023"
  shows "fl x = Fin (fl_fin x)"
proof -
  have "\<bar>fl_fin x\<bar> \<le> 2 powi k" using assms(1,2) by (rule fl_fin_le_pow2)
  also have "\<dots> < huge" using assms(3) by (rule pow2_lt_huge)
  finally show ?thesis by (rule fl_finite)
qed

lemma fl_fin_at:
  assumes "2 powi k \<le> \<bar>x\<bar>" "\<bar>x\<bar> < 2 powi (k + 1)" "emin \<le> k - 52"
  shows "fl_fin x = of_int (round_half_even (x / 2 powi (k - 52))) * 2 powi (k - 52)"
proof -
  have "ilog2 \<bar>x\<bar> = k" using assms(1,2) by (rule ilog2_eqI)
  then have u: "ulp_exp x = k - 52" using assms(3) by (simp add: ulp_exp_def)
  have "0 < \<bar>x\<bar>" using assms(1) pow2_pos[of k] by linarith
  then have "x \<noteq> 0" by simp
  then show ?thesis by (simp add: fl_fin_def u)
qed

lemma fl_at:
  assumes "2 powi k \<le> \<bar>x\<bar>" "\<bar>x\<bar> < 2 powi (k + 1)" "emin \<le> k - 52" "k \<le> 1022"
  shows "fl x = Fin (of_int (round_half_even (x / 2 powi (k - 52))) * 2 powi (k - 52))"
proof -
  have "fl x = Fin (fl_fin x)"
    by (rule fl_bounded[of _ "k + 1"]) (use assms in simp_all)
  then show ?thesis using fl_fin_at[OF assms(1-3)] by simp
qed

lemma rhe_eqI:
  assumes "\<bar>y - of_int n\<bar> < 1 / 2"
  shows "round_half_even y = n"
proof -
  have "\<bar>of_int (round_half_even y) - y\<bar> \<le> 1 / 2" by (rule rhe_err)
  with assms have "\<bar>(of_int (round_half_even y) :: rat) - of_int n\<bar> < 1" by linarith
  then have "\<bar>(of_int (round_half_even y - n) :: rat)\<bar> < of_int 1" by simp
  then have "\<bar>round_half_even y - n\<bar> < 1"
    unfolding of_int_abs[symmetric] by (simp only: of_int_less_iff)
  then show ?thesis by simp
qed

lemma fl_nearest:
  assumes "2 powi k \<le> \<bar>x\<bar>" "\<bar>x\<bar> < 2 powi (k + 1)" "emin \<le> k - 52" "k \<le> 1022"
    and "\<bar>x - of_int n * 2 powi (k - 52)\<bar> < 2 powi (k - 52) / 2"
  shows "fl x = Fin (of_int n * 2 powi (k - 52))"
proof -
  define p where "p = (2::rat) powi (k - 52)"
  have p: "0 < p" by (simp add: p_def)
  have "x / p - of_int n = (x - of_int n * p) / p" using p by (simp add: field_simps)
  then have "\<bar>x / p - of_int n\<bar> = \<bar>x - of_int n * p\<bar> / p" using p by (simp add: abs_divide)
  also have "\<dots> < (p / 2) / p"
    using assms(5) p unfolding p_def[symmetric] by (simp add: divide_strict_right_mono)
  also have "\<dots> = 1 / 2" using p by simp
  finally have "round_half_even (x / p) = n" by (rule rhe_eqI)
  then show ?thesis using fl_at[OF assms(1-4)] by (simp add: p_def)
qed

lemma lit_0_70_value: "lit_0_70 = Fin (3152519739159347 / 4503599627370496)"
proof -
  have "fl (7 / 10) = Fin (of_int 6305039478318694 * 2 powi (- 1 - 52))"
    by (rule fl_nearest) (simp_all add: emin_def)
  then show ?thesis by (simp add: lit_0_70_def)
qed

lemma rhe_numeral [simp]:
  "round_half_even (numeral k) = numeral k"
  "round_half_even (- numeral k) = - numeral k"
  "round_half_even 0 = 0"
  using rhe_of_int[of "numeral k"] rhe_of_int[of "- numeral k"] rhe_of_int[of 0] by simp_all

lemma seventy_percent_of_200000: "fmul (Fin 200000) lit_0_70 = Fin 140000"
proof -
  have "fl (200000 * (3152519739159347 / 4503599627370496))
      = Fin (of_int 4810363371520000 * 2 powi (17 - 52))"
    by (rule fl_nearest) (simp_all add: emin_def)
  then show ?thesis by (simp add: lit_0_70_value)
qed

section \<open>Properties of the document store\<close>

lemma fmul_commute: "fmul a b = fmul b a"
  by (cases a; cases b) (simp_all add: mult.commute)

lemma length_update_one [simp]: "length (fst (update_one p f xs)) = length xs"
  by (induction xs) simp_all

lemma update_one_matched:
  "snd (update_one p f xs) = (case find_one p xs of None \<Rightarrow> 0 | Some x \<Rightarrow> 1)"
  by (induction xs) simp_all

lemma update_one_no_match:
  "find_one p xs = None \<Longrightarrow> fst (update_one p f xs) = xs"
  by (induction xs) (simp_all split: if_splits)

lemma map_update_one:
  assumes "\<And>x. g (f x) = g x"
  shows "map g (fst (update_one p f xs)) = map g xs"
  by (induction xs) (simp_all add: assms)

lemma find_one_update_one:
  assumes "\<And>x. p (f x) = p x"
  shows "find_one p (fst (update_one p f xs)) = map_option f (find_one p xs)"
  by (induction xs) (simp_all add: assms)

lemma update_one_first_match:
  assumes "find_one p xs = Some x"
  shows "\<exists>i<length xs. xs ! i = x \<and> p x \<and> (\<forall>j<i. \<not> p (xs ! j))
           \<and> fst (update_one p f xs) = xs[i := f x]"
  using assms
proof (induction xs)
  case Nil
  then show ?case by simp
next
  case (Cons y ys)
  show ?case
  proof (cases "p y")
    case True
    with Cons.prems have "y = x" by simp
    with True have "0 < length (y # ys) \<and> (y # ys) ! 0 = x \<and> p x \<and> (\<forall>j<0. \<not> p ((y # ys) ! j))
        \<and> fst (update_one p f (y # ys)) = (y # ys)[0 := f x]"
      by simp
    then show ?thesis by blast
  next
    case False
    with Cons.prems have "find_one p ys = Some x" by simp
    from Cons.IH[OF this] obtain i where i: "i < length ys" "ys ! i = x" "p x"
      "\<forall>j<i. \<not> p (ys ! j)" "fst (update_one p f ys) = ys[i := f x]"
      by blast
    have "\<forall>j<Suc i. \<not> p ((y # ys) ! j)"
      using False i(4) by (auto simp: less_Suc_eq_0_disj)
    with i False have "Suc i < length (y # ys) \<and> (y # ys) ! Suc i = x \<and> p x
        \<and> (\<forall>j<Suc i. \<not> p ((y # ys) ! j))
        \<and> fst (update_one p f (y # ys)) = (y # ys)[Suc i := f x]"
      by simp
    then show ?thesis by blast
  qed
qed

lemma set_fields_id [simp]: "Deal.id' (set_fields u doc) = Deal.id' doc"
  by (simp add: set_fields_def Let_def split: option.splits)

lemma set_fields_mao [simp]:
  "Deal.max_allowable_offer (set_fields u doc) = Deal.max_allowable_offer doc"
  by (simp add: set_fields_def Let_def split: option.splits)

lemma set_fields_profit [simp]:
  "Deal.profit_estimate (set_fields u doc) = Deal.profit_estimate doc"
  by (simp add: set_fields_def Let_def split: option.splits)

lemma set_fields_status:
  "DealUpdate.status u = Some s \<Longrightarrow> Deal.status (set_fields u doc) = s"
  by (simp add: set_fields_def Let_def split: option.splits)

lemma update_deal_derived:
  "map Deal.max_allowable_offer (deals (case update_deal d i u of Inl e \<Rightarrow> d | Inr r \<Rightarrow> fst r))
     = map Deal.max_allowable_offer (deals d)"
  "map Deal.profit_estimate (deals (case update_deal d i u of Inl e \<Rightarrow> d | Inr r \<Rightarrow> fst r))
     = map Deal.profit_estimate (deals d)"
  by (simp_all add: update_deal_def Let_def map_update_one)

lemma run_updates_derived:
  "map Deal.max_allowable_offer (deals (run_updates d us)) = map Deal.max_allowable_offer (deals d)
   \<and> map Deal.profit_estimate (deals (run_updates d us)) = map Deal.profit_estimate (deals d)"
proof (induction us arbitrary: d)
  case Nil
  show ?case by simp
next
  case (Cons a us)
  obtain i u where a: "a = (i, u)" by (cases a)
  show ?case
    unfolding a run_updates.simps
    using Cons.IH[of "case update_deal d i u of Inl e \<Rightarrow> d | Inr r \<Rightarrow> fst r"]
    by (simp only: update_deal_derived)
qed

lemma py_round2_two_decimals:
  "\<exists>k::int. py_round2 (Fin x) = fl (of_int k / 100) \<and> \<bar>of_int k / 100 - x\<bar> \<le> 1 / 200"
proof -
  have "\<bar>of_int (round_half_even (x * 100)) - x * 100\<bar> \<le> 1 / 2" by (rule rhe_err)
  then have "\<bar>of_int (round_half_even (x * 100)) / 100 - x\<bar> \<le> 1 / 200" by linarith
  then show ?thesis by auto
qed

lemma is_double_fl_fin: "is_double x \<Longrightarrow> fl_fin x = x"
  by (auto simp: is_double_def fl_def Let_def split: if_splits)

lemma is_double_on_grid: "is_double x \<Longrightarrow> on_grid x"
  using on_grid_fl_fin[of x] by (simp add: is_double_fl_fin)

lemma pow2_double: "(2::rat) powi k + 2 powi k = 2 powi (k + 1)"
  by (simp add: power_int_add)

lemma pow2_mono: "k \<le> l \<Longrightarrow> (2::rat) powi k \<le> 2 powi l"
  by (intro power_int_increasing) simp_all

lemma fl_le_pow2:
  assumes "\<bar>x\<bar> \<le> 2 powi k" "emin \<le> k" "k \<le> 1023"
  shows "fl x = Fin (fl_fin x)" and "\<bar>fl_fin x\<bar> \<le> 2 powi k"
  using fl_bounded[OF assms] fl_fin_le_pow2[OF assms(1,2)] by simp_all

lemma lit_0_70_bounds:
  "lit_0_70 = Fin c \<Longrightarrow> 0 < c \<and> c < 7 / 10 \<and> 7 / 10 - c \<le> 1 / 2 ^ 54"
  by (auto simp: lit_0_70_value)

lemma mao_expr_bounded:
  assumes "\<bar>a\<bar> \<le> 2 powi k" "\<bar>r\<bar> \<le> 2 powi k" "\<bar>f\<bar> \<le> 2 powi k"
    and k: "emin \<le> k" "k \<le> 1021"
  shows "\<exists>m. mao_expr (Fin a) (Fin r) (Fin f) = Fin m \<and> \<bar>m\<bar> \<le> 2 powi (k + 2)"
proof -
  define B where "B = (2::rat) powi k"
  have B: "\<bar>a\<bar> \<le> B" "\<bar>r\<bar> \<le> B" "\<bar>f\<bar> \<le> B" "0 < B" using assms by (simp_all add: B_def)
  have B1: "(2::rat) powi (k + 1) = 2 * B" and B2: "(2::rat) powi (k + 2) = 4 * B"
    unfolding B_def by (simp_all add: power_int_add)
  define c where "c = (3152519739159347 / 4503599627370496 :: rat)"
  have c: "lit_0_70 = Fin c" by (simp add: lit_0_70_value c_def)
  have "\<bar>a * c\<bar> = \<bar>a\<bar> * c" by (simp add: abs_mult c_def)
  also have "\<dots> \<le> \<bar>a\<bar> * 1" by (intro mult_left_mono) (simp_all add: c_def)
  finally have "\<bar>a * c\<bar> \<le> 2 powi k" using B(1) by (simp add: B_def)
  from fl_le_pow2[OF this] k
  have t1: "fl (a * c) = Fin (fl_fin (a * c))" "\<bar>fl_fin (a * c)\<bar> \<le> B"
    by (simp_all add: B_def)
  define t1 where "t1 = fl_fin (a * c)"
  have "\<bar>t1 - r\<bar> \<le> 2 powi (k + 1)" using t1(2) B(2) unfolding B1 t1_def by linarith
  from fl_le_pow2[OF this] k
  have t2: "fl (t1 - r) = Fin (fl_fin (t1 - r))" "\<bar>fl_fin (t1 - r)\<bar> \<le> 2 * B"
    by (simp_all add: B1)
  define t2 where "t2 = fl_fin (t1 - r)"
  have "\<bar>t2 - f\<bar> \<le> 2 powi (k + 2)" using t2(2) B(3,4) unfolding B2 t2_def by linarith
  from fl_le_pow2[OF this] k
  have t3: "fl (t2 - f) = Fin (fl_fin (t2 - f))" "\<bar>fl_fin (t2 - f)\<bar> \<le> 2 powi (k + 2)"
    by simp_all
  show ?thesis
    using t1(1) t2(1) t3 by (simp add: mao_expr_def c t1_def t2_def)
qed

lemma py_round2_bounded:
  assumes "\<bar>m\<bar> \<le> 2 powi k" "0 \<le> k" "k \<le> 1022"
  shows "\<exists>v. py_round2 (Fin m) = Fin v \<and> \<bar>v - m\<bar> \<le> 1 / 200 + (\<bar>m\<bar> + 1 / 200) / 2 ^ 53 + 2 powi emin / 2"
proof -
  define w where "w = (of_int (round_half_even (m * 100)) / 100 :: rat)"
  have "\<bar>of_int (round_half_even (m * 100)) - m * 100\<bar> \<le> 1 / 2" by (rule rhe_err)
  then have wm: "\<bar>w - m\<bar> \<le> 1 / 200" unfolding w_def by linarith
  moreover have "(1::rat) \<le> 2 powi k"
    using pow2_mono[of 0 k] assms(2) by simp
  ultimately have "\<bar>w\<bar> \<le> 2 powi k + 2 powi k" using assms(1) by linarith
  then have "\<bar>w\<bar> \<le> 2 powi (k + 1)" by (simp only: pow2_double)
  from fl_le_pow2(1)[OF this] assms(2,3) have fin: "fl w = Fin (fl_fin w)"
    by (simp add: emin_def)
  have "\<bar>fl_fin w - w\<bar> \<le> \<bar>w\<bar> / 2 ^ 53 + 2 powi emin / 2" by (rule fl_fin_err)
  moreover have "\<bar>w\<bar> \<le> \<bar>m\<bar> + 1 / 200" using wm by linarith
  then have "\<bar>w\<bar> / 2 ^ 53 \<le> (\<bar>m\<bar> + 1 / 200) / 2 ^ 53"
    by (rule divide_right_mono) simp
  ultimately have "\<bar>fl_fin w - m\<bar> \<le> 1 / 200 + (\<bar>m\<bar> + 1 / 200) / 2 ^ 53 + 2 powi emin / 2"
    using wm by linarith
  then show ?thesis using fin by (simp add: w_def)
qed

lemma sub_step:
  assumes g: "on_grid x" "on_grid y"
    and b: "\<bar>x\<bar> + \<bar>y\<bar> \<le> 2 powi k" and k: "emin \<le> k" "k \<le> 1023"
  shows "fsub (Fin x) (Fin y) = Fin (fl_fin (x - y))"
    and "\<bar>fl_fin (x - y) - (x - y)\<bar> \<le> (\<bar>x\<bar> + \<bar>y\<bar>) / 2 ^ 53"
    and "\<bar>fl_fin (x - y)\<bar> \<le> (\<bar>x\<bar> + \<bar>y\<bar>) + (\<bar>x\<bar> + \<bar>y\<bar>) / 2 ^ 53"
    and "on_grid (fl_fin (x - y))"
proof -
  have t: "\<bar>x - y\<bar> \<le> \<bar>x\<bar> + \<bar>y\<bar>" by (rule abs_triangle_ineq4)
  with b have "\<bar>x - y\<bar> \<le> 2 powi k" by linarith
  from fl_le_pow2(1)[OF this k] show "fsub (Fin x) (Fin y) = Fin (fl_fin (x - y))" by simp
  have "\<bar>fl_fin (x - y) - (x - y)\<bar> \<le> \<bar>x - y\<bar> / 2 ^ 53"
    using g by (intro on_grid_err on_grid_diff)
  also have "\<dots> \<le> (\<bar>x\<bar> + \<bar>y\<bar>) / 2 ^ 53"
    using t by (rule divide_right_mono) simp
  finally show e: "\<bar>fl_fin (x - y) - (x - y)\<bar> \<le> (\<bar>x\<bar> + \<bar>y\<bar>) / 2 ^ 53" .
  have "\<bar>fl_fin (x - y)\<bar> \<le> \<bar>fl_fin (x - y) - (x - y)\<bar> + \<bar>x - y\<bar>"
    using abs_triangle_ineq[of "fl_fin (x - y) - (x - y)" "x - y"] by simp
  with e t show "\<bar>fl_fin (x - y)\<bar> \<le> (\<bar>x\<bar> + \<bar>y\<bar>) + (\<bar>x\<bar> + \<bar>y\<bar>) / 2 ^ 53" by linarith
  show "on_grid (fl_fin (x - y))" by simp
qed

lemma chain_arith1:
  fixes A nr nf n1 B :: rat
  assumes "0 \<le> A" "0 \<le> nr" "0 \<le> nf"
    and "A + nr + nf \<le> B"
    and "n1 \<le> A + A / 2 ^ 53"
  shows "n1 + nr \<le> 2 * B"
  using assms by simp

lemma chain_arith2_aux:
  fixes A A2 nr nf n1 n2 B :: rat
  assumes "0 \<le> A" "0 \<le> nr" "0 \<le> nf"
    and "A + nr + nf \<le> B"
    and "n1 \<le> A + A / 9007199254740992"
    and "A2 = n1 + nr"
    and "n2 \<le> A2 + A2 / 9007199254740992"
  shows "n2 + nf \<le> 4 * B"
  using assms by linarith

lemma chain_arith2:
  fixes A nr nf n1 n2 B :: rat
  assumes "0 \<le> A" "0 \<le> nr" "0 \<le> nf"
    and "A + nr + nf \<le> B"
    and "n1 \<le> A + A / 2 ^ 53"
    and "n2 \<le> (n1 + nr) + (n1 + nr) / 2 ^ 53"
  shows "n2 + nf \<le> 4 * B"
  using chain_arith2_aux[OF assms(1-4) _ refl, of n1 n2] assms(5,6) by simp

lemma chain_arith3_aux:
  fixes A A2 A3 T nr nf n1 n2 e1 e2 e3 :: rat
  assumes "0 \<le> A" "0 \<le> nr" "0 \<le> nf"
    and "n1 \<le> A + A / 9007199254740992"
    and "e1 \<le> A / 9007199254740992"
    and "A2 = n1 + nr"
    and "n2 \<le> A2 + A2 / 9007199254740992"
    and "e2 \<le> A2 / 9007199254740992"
    and "A3 = n2 + nf"
    and "e3 \<le> A3 / 9007199254740992"
    and "T = A + nr + nf"
  shows "e1 + e2 + e3 \<le> T / 2251799813685248"
  using assms by linarith

lemma chain_arith3:
  fixes A nr nf n1 n2 e1 e2 e3 :: rat
  assumes "0 \<le> A" "0 \<le> nr" "0 \<le> nf"
    and "n1 \<le> A + A / 2 ^ 53"
    and "e1 \<le> A / 2 ^ 53"
    and "n2 \<le> (n1 + nr) + (n1 + nr) / 2 ^ 53"
    and "e2 \<le> (n1 + nr) / 2 ^ 53"
    and "e3 \<le> (n2 + nf) / 2 ^ 53"
  shows "e1 + e2 + e3 \<le> (A + nr + nf) / 2 ^ 51"
  using chain_arith3_aux[OF assms(1-3) _ _ refl _ _ refl _ refl, of n1 e1 n2 e2 e3] assms(4-8)
  by simp

lemma profit_expr_error:
  assumes g: "on_grid a" "on_grid c" "on_grid r" "on_grid f"
    and b: "\<bar>a\<bar> + \<bar>c\<bar> + \<bar>r\<bar> + \<bar>f\<bar> \<le> 2 powi k" and k: "emin \<le> k" "k \<le> 1021"
  shows "profit_expr (Fin a) (Fin c) (Fin r) (Fin f) = Fin (fl_fin (fl_fin (fl_fin (a - c) - r) - f))"
    and "\<bar>fl_fin (fl_fin (fl_fin (a - c) - r) - f) - (a - c - r - f)\<bar>
           \<le> (\<bar>a\<bar> + \<bar>c\<bar> + \<bar>r\<bar> + \<bar>f\<bar>) / 2 ^ 51"
proof -
  define A where "A = \<bar>a\<bar> + \<bar>c\<bar>"
  define B where "B = (2::rat) powi k"
  have A0: "0 \<le> A" "0 \<le> \<bar>r\<bar>" "0 \<le> \<bar>f\<bar>" by (simp_all add: A_def)
  have TB: "A + \<bar>r\<bar> + \<bar>f\<bar> \<le> B" using b by (simp add: A_def B_def)
  have B1: "(2::rat) powi (k + 1) = 2 * B" and B2: "(2::rat) powi (k + 2) = 4 * B"
    unfolding B_def by (simp_all add: power_int_add)
  define s1 where "s1 = fl_fin (a - c)"
  have "A \<le> B" using TB A0 by linarith
  then have "\<bar>a\<bar> + \<bar>c\<bar> \<le> 2 powi k" by (simp add: A_def B_def)
  from sub_step[OF g(1,2) this] k
  have 1: "fsub (Fin a) (Fin c) = Fin s1"
    "\<bar>s1 - (a - c)\<bar> \<le> A / 2 ^ 53"
    "\<bar>s1\<bar> \<le> A + A / 2 ^ 53"
    "on_grid s1"
    by (simp_all add: s1_def A_def)
  define s2 where "s2 = fl_fin (s1 - r)"
  have "\<bar>s1\<bar> + \<bar>r\<bar> \<le> 2 powi (k + 1)"
    unfolding B1 using A0 TB 1(3) by (rule chain_arith1)
  from sub_step[OF 1(4) g(3) this] k
  have 2: "fsub (Fin s1) (Fin r) = Fin s2"
    "\<bar>s2 - (s1 - r)\<bar> \<le> (\<bar>s1\<bar> + \<bar>r\<bar>) / 2 ^ 53"
    "\<bar>s2\<bar> \<le> (\<bar>s1\<bar> + \<bar>r\<bar>) + (\<bar>s1\<bar> + \<bar>r\<bar>) / 2 ^ 53"
    "on_grid s2"
    by (simp_all add: s2_def)
  define s3 where "s3 = fl_fin (s2 - f)"
  have "\<bar>s2\<bar> + \<bar>f\<bar> \<le> 2 powi (k + 2)"
    unfolding B2 using A0 TB 1(3) 2(3) by (rule chain_arith2)
  from sub_step[OF 2(4) g(4) this] k
  have 3: "fsub (Fin s2) (Fin f) = Fin s3"
    "\<bar>s3 - (s2 - f)\<bar> \<le> (\<bar>s2\<bar> + \<bar>f\<bar>) / 2 ^ 53"
    by (simp_all add: s3_def)
  show "profit_expr (Fin a) (Fin c) (Fin r) (Fin f)
      = Fin (fl_fin (fl_fin (fl_fin (a - c) - r) - f))"
    using 1(1) 2(1) 3(1) by (simp add: profit_expr_def s1_def s2_def s3_def)
  have "\<bar>s1 - (a - c)\<bar> + \<bar>s2 - (s1 - r)\<bar> + \<bar>s3 - (s2 - f)\<bar> \<le> (A + \<bar>r\<bar> + \<bar>f\<bar>) / 2 ^ 51"
    using A0 1(3,2) 2(3,2) 3(2) by (rule chain_arith3)
  moreover have "\<bar>s3 - (a - c - r - f)\<bar>
      \<le> \<bar>s1 - (a - c)\<bar> + \<bar>s2 - (s1 - r)\<bar> + \<bar>s3 - (s2 - f)\<bar>"
    by linarith
  ultimately show "\<bar>fl_fin (fl_fin (fl_fin (a - c) - r) - f) - (a - c - r - f)\<bar>
           \<le> (\<bar>a\<bar> + \<bar>c\<bar> + \<bar>r\<bar> + \<bar>f\<bar>) / 2 ^ 51"
    by (simp add: s1_def s2_def s3_def A_def)
qed

lemma profit_expr_antitone:
  assumes "c \<le> c'"
  shows "fl_fin (fl_fin (fl_fin (a - c') - r) - f) \<le> fl_fin (fl_fin (fl_fin (a - c) - r) - f)"
proof -
  have "fl_fin (a - c') \<le> fl_fin (a - c)" using assms by (intro fl_fin_mono) simp
  then have "fl_fin (fl_fin (a - c') - r) \<le> fl_fin (fl_fin (a - c) - r)"
    by (intro fl_fin_mono) simp
  then show ?thesis by (intro fl_fin_mono) simp
qed

lemma two_chain_arith:
  fixes T T' S p p' x x' :: rat
  assumes "\<bar>p - x\<bar> \<le> T / 2251799813685248" "\<bar>p' - x'\<bar> \<le> T' / 2251799813685248"
    and "T \<le> S" "T' \<le> S"
  shows "\<bar>(p' - x') - (p - x)\<bar> \<le> S / 1125899906842624"
  using assms by linarith

lemma contract_price_60000_26:
  "fl (240001 / 4 + 5764607523034235 / 576460752303423488) = Fin (8246372942447903 / 137438953472)"
  using fl_nearest[of 15 "240001 / 4 + 5764607523034235 / 576460752303423488" 8246372942447903]
  by (simp add: emin_def)

lemma is_double_examples:
  "is_double 200000" "is_double 35000" "is_double 10000" "is_double (240001 / 4)"
  "is_double (8246372942447903 / 137438953472)"
  "is_double (5764607523034235 / 576460752303423488)"
proof -
  show "is_double 200000" "is_double 35000" "is_double 10000" by (simp_all add: is_double_def)
  show "is_double (240001 / 4)"
    unfolding is_double_def
    using fl_nearest[of 15 "240001 / 4" 8246371568058368] by (simp add: emin_def)
  show "is_double (8246372942447903 / 137438953472)"
    unfolding is_double_def
    using fl_nearest[of 15 "8246372942447903 / 137438953472" 8246372942447903]
    by (simp add: emin_def)
  show "is_double (5764607523034235 / 576460752303423488)"
    unfolding is_double_def
    using fl_nearest[of "- 7" "5764607523034235 / 576460752303423488" 5764607523034235]
    by (simp add: emin_def)
qed

lemma profit_at_60000_25:
  "profit_expr (Fin 200000) (Fin (240001 / 4)) (Fin 35000) (Fin 10000) = Fin (379999 / 4)"
proof -
  have y1: "fl (200000 - 240001 / 4) = Fin (559999 / 4)"
    using fl_nearest[of 17 "200000 - 240001 / 4" 4810354781585408] by (simp add: emin_def)
  have y2: "fl (559999 / 4 - 35000) = Fin (419999 / 4)"
    using fl_nearest[of 16 "559999 / 4 - 35000" 7215527877410816] by (simp add: emin_def)
  have y3: "fl (419999 / 4 - 10000) = Fin (379999 / 4)"
    using fl_nearest[of 16 "419999 / 4 - 10000" 6528333110050816] by (simp add: emin_def)
  show ?thesis
    unfolding profit_expr_def fsub.simps y1 y2 y3 ..
qed

lemma profit_at_60000_26:
  "profit_expr (Fin 200000) (Fin (8246372942447903 / 137438953472)) (Fin 35000) (Fin 10000)
     = Fin (408020776428503 / 4294967296)"
proof -
  have x1: "fl (200000 - 8246372942447903 / 137438953472) = Fin (601294304748503 / 4294967296)"
    using fl_nearest[of 17 "200000 - 8246372942447903 / 137438953472" 4810354437988024]
    by (simp add: emin_def)
  have x2: "fl (601294304748503 / 4294967296 - 35000) = Fin (450970449388503 / 4294967296)"
    using fl_nearest[of 16 "601294304748503 / 4294967296 - 35000" 7215527190216048]
    by (simp add: emin_def)
  have x3: "fl (450970449388503 / 4294967296 - 10000) = Fin (408020776428503 / 4294967296)"
    using fl_nearest[of 16 "450970449388503 / 4294967296 - 10000" 6528332422856048]
    by (simp add: emin_def)
  show ?thesis
    unfolding profit_expr_def fsub.simps x1 x2 x3 ..
qed

lemma profit_minus_one_cent:
  "fsub (Fin (379999 / 4)) (Fin (5764607523034235 / 576460752303423488))
     = Fin (6528332422856049 / 68719476736)"
  using fl_nearest[of 16 "379999 / 4 - 5764607523034235 / 576460752303423488" 6528332422856049]
  by (simp add: emin_def)

lemma mao_arith_aux:
  fixes a r f h n1 d1 A2 n2 e2 A3 e3 nm :: rat
  assumes "0 \<le> a" "0 \<le> r" "0 \<le> f" "0 \<le> h"
    and "n1 \<le> a"
    and "d1 \<le> a * (5 / 36028797018963968) + h"
    and "A2 = n1 + r"
    and "n2 \<le> A2 + A2 / 9007199254740992"
    and "e2 \<le> A2 / 9007199254740992"
    and "A3 = n2 + f"
    and "nm \<le> A3 + A3 / 9007199254740992"
    and "e3 \<le> A3 / 9007199254740992"
    and "S = a + r + f"
  shows "d1 + e2 + e3 \<le> S / 2251799813685248 + h"
    and "nm \<le> 2 * S"
proof -
  show "d1 + e2 + e3 \<le> S / 2251799813685248 + h" using assms by linarith
  show "nm \<le> 2 * S" using assms by linarith
qed

lemma mao_expr_error:
  assumes d: "is_double a" "is_double r" "is_double f"
    and n: "0 \<le> a" "0 \<le> r" "0 \<le> f"
    and b: "a + r + f \<le> 2 powi k" and k: "emin \<le> k" "k \<le> 1021"
  shows "\<exists>m. mao_expr (Fin a) (Fin r) (Fin f) = Fin m \<and> on_grid m
           \<and> \<bar>m\<bar> \<le> 2 * (a + r + f)
           \<and> \<bar>m - (7 / 10 * a - r - f)\<bar> \<le> (a + r + f) / 2 ^ 51 + 2 powi emin / 2"
proof -
  define c where "c = (3152519739159347 / 4503599627370496 :: rat)"
  define h where "h = (2::rat) powi emin / 2"
  define B where "B = (2::rat) powi k"
  have c: "lit_0_70 = Fin c" by (simp add: lit_0_70_value c_def)
  have h: "0 \<le> h" by (simp add: h_def)
  have B1: "(2::rat) powi (k + 1) = 2 * B" and B2: "(2::rat) powi (k + 2) = 4 * B"
    unfolding B_def by (simp_all add: power_int_add)
  have SB: "a + r + f \<le> B" using b by (simp add: B_def)
  have g: "on_grid r" "on_grid f" using d by (simp_all add: is_double_on_grid)
  define t1 where "t1 = fl_fin (a * c)"
  have ac: "0 \<le> a * c" "a * c \<le> a" using n(1) by (simp_all add: c_def mult_left_le)
  have t1_nonneg: "0 \<le> t1" unfolding t1_def using ac(1) by (rule fl_fin_nonneg)
  have "fl_fin (a * c) \<le> fl_fin a" using ac(2) by (rule fl_fin_mono)
  then have t1_le: "t1 \<le> a" using d(1) by (simp add: t1_def is_double_fl_fin)
  have n1: "\<bar>t1\<bar> \<le> a" using t1_nonneg t1_le by simp
  have "\<bar>a * c\<bar> \<le> 2 powi k" using ac n SB unfolding B_def by linarith
  from fl_le_pow2(1)[OF this k(1)] k(2) have f1: "fmul (Fin a) lit_0_70 = Fin t1"
    by (simp add: c t1_def)
  have "\<bar>t1 - a * c\<bar> \<le> \<bar>a * c\<bar> / 2 ^ 53 + h"
    unfolding t1_def h_def by (rule fl_fin_err)
  then have "\<bar>t1 - a * c\<bar> \<le> a * c / 9007199254740992 + h" using ac(1) by simp
  moreover have "\<bar>t1 - 7 / 10 * a\<bar> \<le> \<bar>t1 - a * c\<bar> + a * (7 / 10 - c)"
  proof -
    have "0 \<le> a * (7 / 10 - c)" using n(1) by (simp add: c_def)
    moreover have "t1 - 7 / 10 * a = (t1 - a * c) - a * (7 / 10 - c)" by (simp add: algebra_simps)
    ultimately show ?thesis by linarith
  qed
  ultimately have "\<bar>t1 - 7 / 10 * a\<bar>
      \<le> a * (3152519739159347 / 4503599627370496) / 9007199254740992 + h
        + a * (7 / 10 - 3152519739159347 / 4503599627370496)"
    unfolding c_def by linarith
  also have "\<dots> = a * (24769797950537727 / 202824096036516704239472512860160) + h"
    by (simp add: algebra_simps)
  also have "\<dots> \<le> a * (5 / 36028797018963968) + h"
    using n(1) by (simp add: mult_left_mono)
  finally have d1: "\<bar>t1 - 7 / 10 * a\<bar> \<le> a * (5 / 36028797018963968) + h" .
  define t2 where "t2 = fl_fin (t1 - r)"
  have "\<bar>t1\<bar> + \<bar>r\<bar> \<le> 2 powi k" using n1 n SB unfolding B_def by linarith
  from sub_step[OF _ g(1) this] k
  have 2: "fsub (Fin t1) (Fin r) = Fin t2"
    "\<bar>t2 - (t1 - r)\<bar> \<le> (\<bar>t1\<bar> + r) / 2 ^ 53"
    "\<bar>t2\<bar> \<le> (\<bar>t1\<bar> + r) + (\<bar>t1\<bar> + r) / 2 ^ 53"
    "on_grid t2"
    using n(2) by (simp_all add: t2_def t1_def)
  define m where "m = fl_fin (t2 - f)"
  have "\<bar>t2\<bar> + f \<le> 4 * B"
    using chain_arith2[of a r f B "\<bar>t1\<bar>" "\<bar>t2\<bar>"] n SB n1 2(3) by simp
  then have "\<bar>t2\<bar> + \<bar>f\<bar> \<le> 2 powi (k + 2)" using n(3) by (simp add: B2)
  from sub_step[OF 2(4) g(2) this] k
  have 3: "fsub (Fin t2) (Fin f) = Fin m"
    "\<bar>m - (t2 - f)\<bar> \<le> (\<bar>t2\<bar> + f) / 2 ^ 53"
    "\<bar>m\<bar> \<le> (\<bar>t2\<bar> + f) + (\<bar>t2\<bar> + f) / 2 ^ 53"
    "on_grid m"
    using n(3) by (simp_all add: m_def)
  have eq: "mao_expr (Fin a) (Fin r) (Fin f) = Fin m"
    using f1 2(1) 3(1) by (simp add: mao_expr_def)
  have p53: "(2::rat) ^ 53 = 9007199254740992" by simp
  note ar = mao_arith_aux[OF n h n1 d1 refl 2(3)[unfolded p53] 2(2)[unfolded p53] refl
      3(3)[unfolded p53] 3(2)[unfolded p53] refl]
  have "\<bar>m - (7 / 10 * a - r - f)\<bar>
      \<le> \<bar>t1 - 7 / 10 * a\<bar> + \<bar>t2 - (t1 - r)\<bar> + \<bar>m - (t2 - f)\<bar>"
    by linarith
  with ar(1) have "\<bar>m - (7 / 10 * a - r - f)\<bar> \<le> (a + r + f) / 2 ^ 51 + h" by simp
  with eq 3(4) ar(2) show ?thesis unfolding h_def by blast
qed

lemma final_arith:
  fixes S T e1 e2 h :: rat
  assumes "T \<le> 3 * S" "e1 \<le> T / 2251799813685248" "e2 \<le> S / 2251799813685248 + h"
  shows "e1 + e2 \<le> S / 562949953421312 + h"
  using assms by linarith

lemma profit_at_mao_cancellation:
  "profit_at_mao_expr (Fin 1) (Fin 100000000000000000000) (Fin 0) = Fin 0"
proof -
  have m1: "fl (3152519739159347 / 4503599627370496) = Fin (3152519739159347 / 4503599627370496)"
    using fl_nearest[of "- 1" "3152519739159347 / 4503599627370496" 6305039478318694]
    by (simp add: emin_def)
  have m2: "fl (3152519739159347 / 4503599627370496 - 100000000000000000000)
      = Fin (- 100000000000000000000)"
    using fl_nearest[of 66 "3152519739159347 / 4503599627370496 - 100000000000000000000"
        "- 6103515625000000"]
    by (simp add: emin_def)
  have m3: "fl (- 100000000000000000000) = Fin (- 100000000000000000000)"
    using fl_nearest[of 66 "- 100000000000000000000" "- 6103515625000000"]
    by (simp add: emin_def)
  have p1: "fl (1 - (- 100000000000000000000)) = Fin 100000000000000000000"
    using fl_nearest[of 66 "1 - (- 100000000000000000000)" 6103515625000000]
    by (simp add: emin_def)
  show ?thesis
    using m1 m2 m3 p1
    by (simp add: profit_at_mao_expr_def mao_expr_def lit_0_70_value)
qed

lemma profit_at_mao_no_rehab:
  "profit_at_mao_expr (Fin 1) (Fin 0) (Fin 0) = Fin (1351079888211149 / 4503599627370496)"
proof -
  have m1: "fl (3152519739159347 / 4503599627370496) = Fin (3152519739159347 / 4503599627370496)"
    using fl_nearest[of "- 1" "3152519739159347 / 4503599627370496" 6305039478318694]
    by (simp add: emin_def)
  have q1: "fl (1 - 3152519739159347 / 4503599627370496) = Fin (1351079888211149 / 4503599627370496)"
    using fl_nearest[of "- 2" "1 - 3152519739159347 / 4503599627370496" 5404319552844596]
    by (simp add: emin_def)
  have q2: "fl (1351079888211149 / 4503599627370496) = Fin (1351079888211149 / 4503599627370496)"
    using fl_nearest[of "- 2" "1351079888211149 / 4503599627370496" 5404319552844596]
    by (simp add: emin_def)
  show ?thesis
    using m1 q1 q2
    by (simp add: profit_at_mao_expr_def mao_expr_def lit_0_70_value)
qed

lemma thirty_percent_of_one: "fmul lit_0_30 (Fin 1) = Fin (5404319552844595 / 18014398509481984)"
proof -
  have l3: "fl (3 / 10) = Fin (5404319552844595 / 18014398509481984)"
    using fl_nearest[of "- 2" "3 / 10" 5404319552844595] by (simp add: emin_def)
  have l4: "fl (5404319552844595 / 18014398509481984) = Fin (5404319552844595 / 18014398509481984)"
    using fl_nearest[of "- 2" "5404319552844595 / 18014398509481984" 5404319552844595]
    by (simp add: emin_def)
  show ?thesis using l4 by (simp add: lit_0_30_def l3)
qed

lemma is_double_1e20: "is_double 100000000000000000000"
  unfolding is_double_def
  using fl_nearest[of 66 "100000000000000000000" 6103515625000000] by (simp add: emin_def)

lemma mao_at_45000000:
  "mao_expr (Fin 45000000) (Fin 35000) (Fin 10000) = Fin (8443637268479999 / 268435456)"
proof -
  have m1: "fl (45000000 * (3152519739159347 / 4503599627370496)) = Fin (8455716863999999 / 268435456)"
    using fl_nearest[of 24 "45000000 * (3152519739159347 / 4503599627370496)" 8455716863999999] by (simp add: emin_def)
  have m2: "fl (8455716863999999 / 268435456 - 35000) = Fin (8446321623039999 / 268435456)"
    using fl_nearest[of 24 "8455716863999999 / 268435456 - 35000" 8446321623039999] by (simp add: emin_def)
  have m3: "fl (8446321623039999 / 268435456 - 10000) = Fin (8443637268479999 / 268435456)"
    using fl_nearest[of 24 "8446321623039999 / 268435456 - 10000" 8443637268479999] by (simp add: emin_def)
  show ?thesis using m1 m2 m3 by (simp add: mao_expr_def lit_0_70_value)
qed

lemma is_double_eighth: "is_double (1 / 8)"
  unfolding is_double_def
  using fl_nearest[of "- 3" "1 / 8" 4503599627370496] by (simp add: emin_def)

lemma mao_at_fee_eighth: "mao_expr (Fin 0) (Fin 0) (Fin (1 / 8)) = Fin (- (1 / 8))"
proof -
  have e1: "fl (- (1 / 8)) = Fin (- (1 / 8))"
    using fl_nearest[of "- 3" "- (1 / 8)" "- 4503599627370496"] by (simp add: emin_def)
  show ?thesis using e1 by (simp add: mao_expr_def lit_0_70_value)
qed

lemma round2_minus_eighth:
  "py_round2 (Fin (- (1 / 8))) = Fin (- (1080863910568919 / 9007199254740992))"
proof -
  have "\<lfloor>- (25 / 2) :: rat\<rfloor> = - 13" by (rule floor_unique) simp_all
  then have "round_half_even (- (25 / 2)) = - 12"
    by (simp add: round_half_even_def Let_def)
  moreover have v: "fl (- (12 / 100)) = Fin (- (1080863910568919 / 9007199254740992))"
    using fl_nearest[of "- 4" "- (12 / 100)" "- 8646911284551352"] by (simp add: emin_def)
  ultimately show ?thesis by simp
qed

lemma half_ulp_min_small: "(2::rat) powi emin / 2 \<le> 1 / 2 ^ 60"
proof -
  have "(2::rat) powi emin \<le> 2 powi (- 59)" by (intro pow2_mono) (simp add: emin_def)
  also have "\<dots> = 1 / 2 ^ 59" by (simp add: power_int_minus field_simps)
  finally show ?thesis by simp
qed

lemma tolerance_arith:
  fixes S e h :: rat
  assumes "e \<le> S / 2251799813685248 + h" "h \<le> 1 / 1152921504606846976" "S \<le> 2000000"
  shows "e \<le> 1 / 1000000000"
  using assms by linarith

lemma rounded_arith:
  fixes S T A m x v h nm :: rat
  assumes "\<bar>m - x\<bar> \<le> S / 2251799813685248 + h"
    and "\<bar>v - m\<bar> \<le> 1 / 200 + A / 9007199254740992 + h"
    and "A = nm + 1 / 200"
    and "nm \<le> 2 * S" "0 \<le> S" "h \<le> 1 / 1152921504606846976" "T = S + 1"
  shows "\<bar>v - x\<bar> \<le> 1 / 200 + T / 1125899906842624"
  using assms by linarith

lemma profit_expr_int:
  assumes "\<bar>a\<bar> + \<bar>c\<bar> + \<bar>r\<bar> + \<bar>f\<bar> < (2 ^ 53 :: int)"
  shows "profit_expr (Fin (of_int a)) (Fin (of_int c)) (Fin (of_int r)) (Fin (of_int f))
           = Fin (of_int (a - c - r - f))"
proof -
  have 1: "fl (of_int (a - c)) = Fin (of_int (a - c))"
    using assms by (intro fl_int) linarith
  have 2: "fl (of_int (a - c - r)) = Fin (of_int (a - c - r))"
    using assms by (intro fl_int) linarith
  have 3: "fl (of_int (a - c - r - f)) = Fin (of_int (a - c - r - f))"
    using assms by (intro fl_int) linarith
  have "fsub (Fin (of_int a)) (Fin (of_int c)) = Fin (of_int (a - c))"
    using 1 by simp
  moreover have "fsub (Fin (of_int (a - c))) (Fin (of_int r)) = Fin (of_int (a - c - r))"
    using 2 by simp
  moreover have "fsub (Fin (of_int (a - c - r))) (Fin (of_int f)) = Fin (of_int (a - c - r - f))"
    using 3 by simp
  ultimately show ?thesis by (simp only: profit_expr_def)
qed

lemma calculate_mao_empty:
  "calculate_mao Map.empty
     = [(''arv'', Fin 0), (''rehab_estimate'', Fin 0), (''assignment_fee'', Fin 10000),
        (''max_allowable_offer'', Fin (- 10000)), (''profit_at_mao'', Fin 0),
        (''seventy_percent_arv'', Fin 0)]"
  by (simp add: calculate_mao_def dict_get_def Let_def mao_expr_def lit_0_70_value)

lemma is_double_pow2_1023: "is_double (2 ^ 1023)"
proof -
  have "fl (2 powi 1023) = Fin (fl_fin (2 powi 1023))"
    by (rule fl_bounded[of _ 1023]) (simp_all add: emin_def)
  moreover have "fl_fin (2 powi 1023) = 2 powi 1023"
    by (rule fl_fin_pow2) (simp add: emin_def)
  ultimately have "fl (2 powi 1023) = Fin (2 powi 1023)" by simp
  then show ?thesis unfolding is_double_def by simp
qed

lemma mao_overflow: "mao_expr (Fin 0) (Fin (2 ^ 1023)) (Fin (2 ^ 1023)) = NInf"
proof -
  define P where "P = (2::rat) powi 1023"
  have P: "fl P = Fin P" using is_double_pow2_1023 by (simp add: is_double_def P_def)
  have "fl (- P) = Fin (fl_fin (- P))"
    unfolding P_def by (rule fl_bounded[of _ 1023]) (simp_all add: emin_def)
  moreover have "fl_fin P = P" unfolding P_def by (rule fl_fin_pow2) (simp add: emin_def)
  ultimately have 1: "fl (- P) = Fin (- P)" by (simp add: fl_fin_minus)
  have "P + P = 2 powi (1023 + 1)" unfolding P_def by (rule pow2_double)
  then have PP: "P + P = 2 powi 1024" by simp
  have "fl_fin (2 powi 1024) = 2 powi 1024" by (rule fl_fin_pow2) (simp add: emin_def)
  then have "fl_fin (- P - P) = - (2 powi 1024)"
    using PP fl_fin_minus[of "P + P"] by simp
  moreover have "(2::rat) powi 1024 = huge" by (simp add: huge_def)
  ultimately have "fl_fin (- P - P) = - huge" by simp
  then have 2: "fl (- P - P) = NInf" by (simp add: fl_def Let_def huge_def)
  have "mao_expr (Fin 0) (Fin P) (Fin P) = NInf"
    using 1 2 by (simp add: mao_expr_def lit_0_70_value)
  then show ?thesis by (simp add: P_def)
qed

lemma py_round2_nonpos:
  assumes "m \<le> 0" "py_round2 (Fin m) = Fin v"
  shows "v \<le> 0"
proof -
  define w where "w = (of_int (round_half_even (m * 100)) / 100 :: rat)"
  have "m * 100 \<le> 0" using assms(1) by simp
  then have "round_half_even (m * 100) \<le> round_half_even 0" by (rule rhe_mono)
  then have "w \<le> 0" by (simp add: w_def)
  then have "fl_fin w \<le> 0" by (rule fl_fin_nonpos)
  moreover have "fl w = Fin v" using assms(2) by (simp add: w_def)
  then have "v = fl_fin w" by (simp add: fl_def Let_def split: if_splits)
  ultimately show ?thesis by simp
qed

section \<open>The claims\<close>

text \<open>
  A formula of the specification such as \<^verbatim>\<open>arv - contract_price - rehab - fee\<close> denotes its
  left-to-right evaluation in binary64, which is what the program stores. Where the
  specification compares a result with the real value of a formula, by a tolerance, an
  algebraic identity or a change by a given amount, the theorems bound the distance between
  the float that the program computes and the exact rational value.
\<close>

text \<open>
  The offer is not within \<^verbatim>\<open>1e-9\<close> of the value of \<^verbatim>\<open>0.70 * arv - rehab - fee\<close> for all
  non-negative inputs. With \<^verbatim>\<open>arv = 45000000, rehab_estimate = 35000, assignment_fee = 10000\<close> deal
  creation stores \<^verbatim>\<open>31454999.999999996\<close>, which is \<open>2 ^ - 28\<close>, about \<^verbatim>\<open>3.7e-9\<close>, below
  \<open>31455000\<close>. The calculator returns the offer rounded to two decimals: with
  \<^verbatim>\<open>arv = 0, rehab_estimate = 0, assignment_fee = 0.125\<close> it returns \<^verbatim>\<open>-0.12\<close>, which is
  0.005 away from \<open>- 0.125\<close>.
\<close>

theorem mao_outside_tolerance:
  "is_double 45000000 \<and> is_double 35000 \<and> is_double 10000 \<and> is_double (1 / 8)
   \<and> Deal.max_allowable_offer
        (snd (create_deal example_db ''d1'' ''2026-01-02''
           (DealCreate_validate (example_body\<lparr>DealCreate_body.arv := Fin 45000000\<rparr>))))
       = Fin (8443637268479999 / 268435456)
   \<and> 1 / 10 ^ 9 < \<bar>8443637268479999 / 268435456 - (7 / 10 * 45000000 - 35000 - 10000 :: rat)\<bar>
   \<and> map_of (calculate_mao [''arv'' \<mapsto> Fin 0, ''rehab_estimate'' \<mapsto> Fin 0,
                ''assignment_fee'' \<mapsto> Fin (1 / 8)]) ''max_allowable_offer''
       = Some (Fin (- (1080863910568919 / 9007199254740992)))
   \<and> 1 / 10 ^ 9 < \<bar>- (1080863910568919 / 9007199254740992) - (7 / 10 * 0 - 0 - 1 / 8 :: rat)\<bar>"
proof -
  have "is_double 45000000" by (simp add: is_double_def)
  moreover have "Deal.max_allowable_offer
        (snd (create_deal example_db ''d1'' ''2026-01-02''
           (DealCreate_validate (example_body\<lparr>DealCreate_body.arv := Fin 45000000\<rparr>))))
       = Fin (8443637268479999 / 268435456)"
    using mao_at_45000000
    by (simp add: create_deal_def Let_def DealCreate_validate_def example_body_def)
  moreover have "map_of (calculate_mao [''arv'' \<mapsto> Fin 0, ''rehab_estimate'' \<mapsto> Fin 0,
                ''assignment_fee'' \<mapsto> Fin (1 / 8)]) ''max_allowable_offer''
       = Some (Fin (- (1080863910568919 / 9007199254740992)))"
    using mao_at_fee_eighth round2_minus_eighth
    by (simp add: calculate_mao_def Let_def dict_get_def)
  ultimately show ?thesis
    using is_double_examples(2,3) is_double_eighth by simp
qed

text \<open>
  C1, amended. For finite non-negative floats \<^verbatim>\<open>arv\<close>, \<^verbatim>\<open>rehab\<close>, \<^verbatim>\<open>fee\<close> whose sum is at
  most \<open>2 ^ 1000\<close>, the offer that deal creation returns and stores is a finite float within
  \<open>(arv + rehab + fee) / 2 ^ 51 + 2 ^ - 1075\<close> of the real number
  \<open>7 / 10 * arv - rehab - fee\<close>, hence within \<^verbatim>\<open>1e-9\<close> of it when the sum is at most
  \<open>2000000\<close>. The calculator returns that float rounded to two decimals, which is within
  \<open>1 / 200 + (arv + rehab + fee + 1) / 2 ^ 50\<close> of the real number.
\<close>

theorem mao_near_seventy_percent_formula:
  assumes "is_double a" "is_double r" "is_double f" "0 \<le> a" "0 \<le> r" "0 \<le> f"
    and "a + r + f \<le> 2 ^ 1000"
    and "DealCreate.arv deal_data = Fin a" "DealCreate.rehab_estimate deal_data = Fin r"
      "DealCreate.assignment_fee deal_data = Fin f"
  shows "\<exists>m v. Deal.max_allowable_offer (snd (create_deal d new_id now deal_data)) = Fin m
           \<and> Deal.max_allowable_offer (last (deals (fst (create_deal d new_id now deal_data))))
               = Fin m
           \<and> \<bar>m - (7 / 10 * a - r - f)\<bar> \<le> (a + r + f) / 2 ^ 51 + 2 powi emin / 2
           \<and> (a + r + f \<le> 2000000 \<longrightarrow> \<bar>m - (7 / 10 * a - r - f)\<bar> \<le> 1 / 10 ^ 9)
           \<and> map_of (calculate_mao [''arv'' \<mapsto> Fin a, ''rehab_estimate'' \<mapsto> Fin r,
                  ''assignment_fee'' \<mapsto> Fin f]) ''max_allowable_offer'' = Some (Fin v)
           \<and> py_round2 (Fin m) = Fin v
           \<and> \<bar>v - (7 / 10 * a - r - f)\<bar> \<le> 1 / 200 + (a + r + f + 1) / 2 ^ 50"
proof -
  define S where "S = a + r + f"
  define h where "h = (2::rat) powi emin / 2"
  define x where "x = 7 / 10 * a - r - f"
  define k where "k = (1000::int)"
  have k: "emin \<le> k" "k \<le> 1021" "0 \<le> k + 1" "k + 1 \<le> 1022"
    by (simp_all add: k_def emin_def)
  have S0: "0 \<le> S" using assms(4-6) by (simp add: S_def)
  have hs: "h \<le> 1 / 1152921504606846976" using half_ulp_min_small by (simp add: h_def)
  have SB: "a + r + f \<le> 2 powi k" using assms(7) by (simp add: k_def)
  from mao_expr_error[OF assms(1-6) SB k(1,2)]
  obtain m where m: "mao_expr (Fin a) (Fin r) (Fin f) = Fin m"
    "\<bar>m\<bar> \<le> 2 * S" "\<bar>m - x\<bar> \<le> S / 2 ^ 51 + h"
    unfolding S_def h_def x_def by blast
  have "S \<le> 2 powi k" using SB by (simp add: S_def)
  then have "2 * S \<le> 2 powi k + 2 powi k" by linarith
  then have "\<bar>m\<bar> \<le> 2 powi (k + 1)" using m(2) unfolding pow2_double by linarith
  from py_round2_bounded[OF this k(3,4)]
  obtain v where v: "py_round2 (Fin m) = Fin v"
    "\<bar>v - m\<bar> \<le> 1 / 200 + (\<bar>m\<bar> + 1 / 200) / 2 ^ 53 + h"
    unfolding h_def by blast
  have c1: "Deal.max_allowable_offer (snd (create_deal d new_id now deal_data)) = Fin m"
    using m(1) assms(8-10) by (simp add: create_deal_def Let_def)
  have c2: "Deal.max_allowable_offer (last (deals (fst (create_deal d new_id now deal_data))))
      = Fin m"
    using m(1) assms(8-10) by (simp add: create_deal_def Let_def insert_one_def)
  have c3: "map_of (calculate_mao [''arv'' \<mapsto> Fin a, ''rehab_estimate'' \<mapsto> Fin r,
                  ''assignment_fee'' \<mapsto> Fin f]) ''max_allowable_offer'' = Some (Fin v)"
    using m(1) v(1) by (simp add: calculate_mao_def Let_def dict_get_def)
  have e1: "\<bar>m - x\<bar> \<le> S / 2 ^ 51 + h" by (rule m(3))
  have e2: "S \<le> 2000000 \<longrightarrow> \<bar>m - x\<bar> \<le> 1 / 10 ^ 9"
    using tolerance_arith[of "\<bar>m - x\<bar>" S h] m(3) hs by simp
  have e3: "\<bar>v - x\<bar> \<le> 1 / 200 + (S + 1) / 2 ^ 50"
    using rounded_arith[of m x S h v "\<bar>m\<bar> + 1 / 200" "\<bar>m\<bar>" "S + 1"] m(2,3) v(2) S0 hs
    by simp
  from c1 c2 c3 e1 e2 e3 v(1) show ?thesis unfolding S_def h_def x_def by blast
qed

theorem mao_near_seventy_percent_formula_witness:
  "is_double 200000 \<and> is_double 35000 \<and> is_double 10000
   \<and> (200000 + 35000 + 10000 :: rat) \<le> 2000000
   \<and> DealCreate.arv (DealCreate_validate example_body) = Fin 200000
   \<and> DealCreate.rehab_estimate (DealCreate_validate example_body) = Fin 35000
   \<and> DealCreate.assignment_fee (DealCreate_validate example_body) = Fin 10000
   \<and> Deal.max_allowable_offer (last (deals (fst
         (create_deal example_db ''d1'' ''2026-01-02'' (DealCreate_validate example_body)))))
       = Fin 95000
   \<and> map_of (calculate_mao [''arv'' \<mapsto> Fin 200000, ''rehab_estimate'' \<mapsto> Fin 35000,
                ''assignment_fee'' \<mapsto> Fin 10000]) ''max_allowable_offer'' = Some (Fin 95000)
   \<and> (\<exists>m v. Deal.max_allowable_offer (snd (create_deal example_db ''d1'' ''2026-01-02''
                  (DealCreate_validate example_body))) = Fin m
           \<and> Deal.max_allowable_offer (last (deals (fst (create_deal example_db ''d1''
                  ''2026-01-02'' (DealCreate_validate example_body))))) = Fin m
           \<and> \<bar>m - (7 / 10 * 200000 - 35000 - 10000)\<bar>
               \<le> (200000 + 35000 + 10000) / 2 ^ 51 + 2 powi emin / 2
           \<and> \<bar>m - (7 / 10 * 200000 - 35000 - 10000)\<bar> \<le> 1 / 10 ^ 9
           \<and> map_of (calculate_mao [''arv'' \<mapsto> Fin 200000, ''rehab_estimate'' \<mapsto> Fin 35000,
                  ''assignment_fee'' \<mapsto> Fin 10000]) ''max_allowable_offer'' = Some (Fin v)
           \<and> py_round2 (Fin m) = Fin v
           \<and> \<bar>v - (7 / 10 * 200000 - 35000 - 10000)\<bar> \<le> 1 / 200 + (200000 + 35000 + 10000 + 1) / 2 ^ 50)"
proof -
  have b: "(200000 + 35000 + 10000 :: rat) \<le> 2 ^ 1000" by simp
  have b2: "(200000 + 35000 + 10000 :: rat) \<le> 2000000" by simp
  have n: "(0::rat) \<le> 200000" "(0::rat) \<le> 35000" "(0::rat) \<le> 10000" by simp_all
  have i: "DealCreate.arv (DealCreate_validate example_body) = Fin 200000"
    "DealCreate.rehab_estimate (DealCreate_validate example_body) = Fin 35000"
    "DealCreate.assignment_fee (DealCreate_validate example_body) = Fin 10000"
    by (simp_all add: DealCreate_validate_def example_body_def)
  from mao_near_seventy_percent_formula[OF is_double_examples(1,2,3) n b i,
      of example_db "''d1''" "''2026-01-02''"]
  obtain m v where mv:
    "Deal.max_allowable_offer (snd (create_deal example_db ''d1'' ''2026-01-02''
                  (DealCreate_validate example_body))) = Fin m"
    "Deal.max_allowable_offer (last (deals (fst (create_deal example_db ''d1''
                  ''2026-01-02'' (DealCreate_validate example_body))))) = Fin m"
    "\<bar>m - (7 / 10 * 200000 - 35000 - 10000)\<bar>
               \<le> (200000 + 35000 + 10000) / 2 ^ 51 + 2 powi emin / 2"
    "200000 + 35000 + 10000 \<le> (2000000 :: rat)
               \<longrightarrow> \<bar>m - (7 / 10 * 200000 - 35000 - 10000)\<bar> \<le> 1 / 10 ^ 9"
    "map_of (calculate_mao [''arv'' \<mapsto> Fin 200000, ''rehab_estimate'' \<mapsto> Fin 35000,
                  ''assignment_fee'' \<mapsto> Fin 10000]) ''max_allowable_offer'' = Some (Fin v)"
    "py_round2 (Fin m) = Fin v"
    "\<bar>v - (7 / 10 * 200000 - 35000 - 10000)\<bar> \<le> 1 / 200 + (200000 + 35000 + 10000 + 1) / 2 ^ 50"
    by (elim exE conjE)
  from mv(4) b2 have tol: "\<bar>m - (7 / 10 * 200000 - 35000 - 10000)\<bar> \<le> 1 / 10 ^ 9" by (rule mp)
  have t: "\<exists>m v. Deal.max_allowable_offer (snd (create_deal example_db ''d1'' ''2026-01-02''
                  (DealCreate_validate example_body))) = Fin m
           \<and> Deal.max_allowable_offer (last (deals (fst (create_deal example_db ''d1''
                  ''2026-01-02'' (DealCreate_validate example_body))))) = Fin m
           \<and> \<bar>m - (7 / 10 * 200000 - 35000 - 10000)\<bar>
               \<le> (200000 + 35000 + 10000) / 2 ^ 51 + 2 powi emin / 2
           \<and> \<bar>m - (7 / 10 * 200000 - 35000 - 10000)\<bar> \<le> 1 / 10 ^ 9
           \<and> map_of (calculate_mao [''arv'' \<mapsto> Fin 200000, ''rehab_estimate'' \<mapsto> Fin 35000,
                  ''assignment_fee'' \<mapsto> Fin 10000]) ''max_allowable_offer'' = Some (Fin v)
           \<and> py_round2 (Fin m) = Fin v
           \<and> \<bar>v - (7 / 10 * 200000 - 35000 - 10000)\<bar> \<le> 1 / 200 + (200000 + 35000 + 10000 + 1) / 2 ^ 50"
    by (intro exI[of _ m] exI[of _ v] conjI mv(1) mv(2) mv(3) tol mv(5) mv(6) mv(7))
  have s: "Deal.max_allowable_offer (last (deals (fst
         (create_deal example_db ''d1'' ''2026-01-02'' (DealCreate_validate example_body)))))
       = Fin 95000"
    by (simp add: create_deal_def Let_def insert_one_def DealCreate_validate_def
        example_body_def mao_expr_def seventy_percent_of_200000)
  have c: "map_of (calculate_mao [''arv'' \<mapsto> Fin 200000, ''rehab_estimate'' \<mapsto> Fin 35000,
                ''assignment_fee'' \<mapsto> Fin 10000]) ''max_allowable_offer'' = Some (Fin 95000)"
    by (simp add: calculate_mao_def Let_def dict_get_def mao_expr_def seventy_percent_of_200000)
  show ?thesis
    by (intro conjI is_double_examples(1) is_double_examples(2) is_double_examples(3) b2 i s c t)
qed

text \<open>
  C3. Deal creation appends the new deal with \<^verbatim>\<open>max_allowable_offer\<close> and
  \<^verbatim>\<open>profit_estimate\<close> computed by the two formulas, and no sequence of update
  requests, accepted or rejected, changes these two fields of any stored deal.
\<close>

theorem derived_fields_fixed_at_creation:
  "deals (fst (create_deal d new_id now deal_data)) = deals d @ [snd (create_deal d new_id now deal_data)]
   \<and> Deal.max_allowable_offer (snd (create_deal d new_id now deal_data)) =
       fsub (fsub (fmul (DealCreate.arv deal_data) lit_0_70) (DealCreate.rehab_estimate deal_data))
            (DealCreate.assignment_fee deal_data)
   \<and> Deal.profit_estimate (snd (create_deal d new_id now deal_data)) =
       fsub (fsub (fsub (DealCreate.arv deal_data) (DealCreate.contract_price deal_data))
                  (DealCreate.rehab_estimate deal_data))
            (DealCreate.assignment_fee deal_data)
   \<and> map Deal.max_allowable_offer (deals (run_updates (fst (create_deal d new_id now deal_data)) us))
       = map Deal.max_allowable_offer (deals d)
         @ [Deal.max_allowable_offer (snd (create_deal d new_id now deal_data))]
   \<and> map Deal.profit_estimate (deals (run_updates (fst (create_deal d new_id now deal_data)) us))
       = map Deal.profit_estimate (deals d)
         @ [Deal.profit_estimate (snd (create_deal d new_id now deal_data))]"
proof -
  have c: "deals (fst (create_deal d new_id now deal_data))
      = deals d @ [snd (create_deal d new_id now deal_data)]"
    by (simp add: create_deal_def Let_def insert_one_def)
  have "Deal.max_allowable_offer (snd (create_deal d new_id now deal_data)) =
       fsub (fsub (fmul (DealCreate.arv deal_data) lit_0_70) (DealCreate.rehab_estimate deal_data))
            (DealCreate.assignment_fee deal_data)"
    by (simp add: create_deal_def Let_def mao_expr_def)
  moreover have "Deal.profit_estimate (snd (create_deal d new_id now deal_data)) =
       fsub (fsub (fsub (DealCreate.arv deal_data) (DealCreate.contract_price deal_data))
                  (DealCreate.rehab_estimate deal_data))
            (DealCreate.assignment_fee deal_data)"
    by (simp add: create_deal_def Let_def profit_expr_def)
  moreover note c
  moreover have "map Deal.max_allowable_offer
        (deals (run_updates (fst (create_deal d new_id now deal_data)) us))
       = map Deal.max_allowable_offer (deals d)
         @ [Deal.max_allowable_offer (snd (create_deal d new_id now deal_data))]"
    using run_updates_derived[of "fst (create_deal d new_id now deal_data)" us]
    by (simp only: c map_append list.map)
  moreover have "map Deal.profit_estimate
        (deals (run_updates (fst (create_deal d new_id now deal_data)) us))
       = map Deal.profit_estimate (deals d)
         @ [Deal.profit_estimate (snd (create_deal d new_id now deal_data))]"
    using run_updates_derived[of "fst (create_deal d new_id now deal_data)" us]
    by (simp only: c map_append list.map)
  ultimately show ?thesis by blast
qed

theorem derived_fields_fixed_at_creation_witness:
  "map Deal.max_allowable_offer
     (deals (run_updates
        (fst (create_deal seeded_db ''d1'' ''2026-01-02'' (DealCreate_validate example_body)))
        [(''d1'', close_update), (''deal_1'', close_update), (''missing'', close_update)]))
     = [Fin 79000, Fin 95000]
   \<and> map Deal.profit_estimate
     (deals (run_updates
        (fst (create_deal seeded_db ''d1'' ''2026-01-02'' (DealCreate_validate example_body)))
        [(''d1'', close_update), (''deal_1'', close_update), (''missing'', close_update)]))
     = [Fin 48000, Fin 70000]"
  using derived_fields_fixed_at_creation[of seeded_db "''d1''" "''2026-01-02''"
      "DealCreate_validate example_body"
      "[(''d1'', close_update), (''deal_1'', close_update), (''missing'', close_update)]"]
  by (simp add: DealCreate_validate_def example_body_def seeded_db_def sample_deal_def
      seventy_percent_of_200000)

text \<open>
  C4. Deal creation appends the deal it returns to the \<^verbatim>\<open>deals\<close> collection. The stored
  document carries the supplied \<^verbatim>\<open>arv\<close>, \<^verbatim>\<open>contract_price\<close>, \<^verbatim>\<open>rehab_estimate\<close> and
  \<^verbatim>\<open>assignment_fee\<close>, and its \<^verbatim>\<open>profit_estimate\<close> is
  \<^verbatim>\<open>arv - contract_price - rehab_estimate - assignment_fee\<close> evaluated from left to right in the
  floats of the program. A lookup by the identifier, when no older deal has it, returns this
  document. For whole-number inputs whose magnitudes sum to less than \<open>2 ^ 53\<close> the stored
  value is exactly the integer \<open>arv - contract_price - rehab_estimate - assignment_fee\<close>.
\<close>

theorem create_deal_profit_estimate:
  "deals (fst (create_deal d new_id now deal_data))
     = deals d @ [snd (create_deal d new_id now deal_data)]
   \<and> Deal.profit_estimate (last (deals (fst (create_deal d new_id now deal_data)))) =
       fsub (fsub (fsub (DealCreate.arv deal_data) (DealCreate.contract_price deal_data))
                  (DealCreate.rehab_estimate deal_data))
            (DealCreate.assignment_fee deal_data)
   \<and> Deal.arv (last (deals (fst (create_deal d new_id now deal_data)))) = DealCreate.arv deal_data
   \<and> Deal.contract_price (last (deals (fst (create_deal d new_id now deal_data))))
       = DealCreate.contract_price deal_data
   \<and> Deal.rehab_estimate (last (deals (fst (create_deal d new_id now deal_data))))
       = DealCreate.rehab_estimate deal_data
   \<and> Deal.assignment_fee (last (deals (fst (create_deal d new_id now deal_data))))
       = DealCreate.assignment_fee deal_data
   \<and> ((\<forall>x \<in> set (deals d). Deal.id' x \<noteq> new_id) \<longrightarrow>
        find_one (\<lambda>doc. Deal.id' doc = new_id) (deals (fst (create_deal d new_id now deal_data)))
          = Some (snd (create_deal d new_id now deal_data)))
   \<and> (DealCreate.arv deal_data = Fin (of_int a) \<and> DealCreate.contract_price deal_data = Fin (of_int c)
        \<and> DealCreate.rehab_estimate deal_data = Fin (of_int r)
        \<and> DealCreate.assignment_fee deal_data = Fin (of_int f)
        \<and> \<bar>a\<bar> + \<bar>c\<bar> + \<bar>r\<bar> + \<bar>f\<bar> < 2 ^ 53 \<longrightarrow>
        Deal.profit_estimate (last (deals (fst (create_deal d new_id now deal_data))))
          = Fin (of_int (a - c - r - f)))"
proof -
  have find_new: "find_one p (xs @ [y]) = Some y" if "\<forall>x \<in> set xs. \<not> p x" "p y"
    for p and xs :: "Deal list" and y
    using that by (induction xs) simp_all
  have 1: "deals (fst (create_deal d new_id now deal_data))
     = deals d @ [snd (create_deal d new_id now deal_data)]"
    by (simp add: create_deal_def Let_def insert_one_def)
  have 2: "Deal.id' (snd (create_deal d new_id now deal_data)) = new_id"
    by (simp add: create_deal_def Let_def)
  have 3: "find_one (\<lambda>doc. Deal.id' doc = new_id) (deals (fst (create_deal d new_id now deal_data)))
          = Some (snd (create_deal d new_id now deal_data))"
    if "\<forall>x \<in> set (deals d). Deal.id' x \<noteq> new_id"
    unfolding 1 using that 2 by (intro find_new) simp_all
  have 4: "Deal.profit_estimate (last (deals (fst (create_deal d new_id now deal_data)))) =
       profit_expr (DealCreate.arv deal_data) (DealCreate.contract_price deal_data)
                  (DealCreate.rehab_estimate deal_data) (DealCreate.assignment_fee deal_data)"
    by (simp add: create_deal_def Let_def insert_one_def)
  have 5: "Deal.profit_estimate (last (deals (fst (create_deal d new_id now deal_data))))
          = Fin (of_int (a - c - r - f))"
    if "DealCreate.arv deal_data = Fin (of_int a)" "DealCreate.contract_price deal_data = Fin (of_int c)"
      "DealCreate.rehab_estimate deal_data = Fin (of_int r)"
      "DealCreate.assignment_fee deal_data = Fin (of_int f)"
      "\<bar>a\<bar> + \<bar>c\<bar> + \<bar>r\<bar> + \<bar>f\<bar> < 2 ^ 53"
    unfolding 4 using that profit_expr_int[of a c r f] by simp
  have 6: "Deal.arv (last (deals (fst (create_deal d new_id now deal_data)))) = DealCreate.arv deal_data"
    "Deal.contract_price (last (deals (fst (create_deal d new_id now deal_data))))
       = DealCreate.contract_price deal_data"
    "Deal.rehab_estimate (last (deals (fst (create_deal d new_id now deal_data))))
       = DealCreate.rehab_estimate deal_data"
    "Deal.assignment_fee (last (deals (fst (create_deal d new_id now deal_data))))
       = DealCreate.assignment_fee deal_data"
    by (simp_all add: create_deal_def Let_def insert_one_def)
  from 1 3 4 5 6 show ?thesis unfolding profit_expr_def by blast
qed

theorem create_deal_profit_estimate_witness:
  "map Deal.id' (deals seeded_db) = [''deal_1'']
   \<and> DealCreate.arv (DealCreate_validate example_body) = Fin (of_int 200000)
   \<and> DealCreate.contract_price (DealCreate_validate example_body) = Fin (of_int 85000)
   \<and> DealCreate.rehab_estimate (DealCreate_validate example_body) = Fin (of_int 35000)
   \<and> DealCreate.assignment_fee (DealCreate_validate example_body) = Fin (of_int 10000)
   \<and> \<bar>200000\<bar> + \<bar>85000\<bar> + \<bar>35000\<bar> + \<bar>10000\<bar> < (2 ^ 53 :: int)
   \<and> map Deal.profit_estimate (deals (fst
       (create_deal seeded_db ''d1'' ''2026-01-02'' (DealCreate_validate example_body))))
       = [Fin 48000, Fin 70000]
   \<and> map_option Deal.profit_estimate (find_one (\<lambda>doc. Deal.id' doc = ''d1'') (deals (fst
       (create_deal seeded_db ''d1'' ''2026-01-02'' (DealCreate_validate example_body)))))
       = Some (Fin 70000)"
proof -
  let ?r = "create_deal seeded_db ''d1'' ''2026-01-02'' (DealCreate_validate example_body)"
  note t = create_deal_profit_estimate[of seeded_db "''d1''" "''2026-01-02''"
      "DealCreate_validate example_body" 200000 85000 35000 10000]
  have i: "map Deal.id' (deals seeded_db) = [''deal_1'']"
    by (simp add: seeded_db_def sample_deal_def)
  have h: "\<forall>x \<in> set (deals seeded_db). Deal.id' x \<noteq> ''d1''"
    by (simp add: seeded_db_def sample_deal_def)
  have g: "DealCreate.arv (DealCreate_validate example_body) = Fin (of_int 200000)"
    "DealCreate.contract_price (DealCreate_validate example_body) = Fin (of_int 85000)"
    "DealCreate.rehab_estimate (DealCreate_validate example_body) = Fin (of_int 35000)"
    "DealCreate.assignment_fee (DealCreate_validate example_body) = Fin (of_int 10000)"
    "\<bar>200000\<bar> + \<bar>85000\<bar> + \<bar>35000\<bar> + \<bar>10000\<bar> < (2 ^ 53 :: int)"
    by (simp_all add: DealCreate_validate_def example_body_def)
  from t have a: "deals (fst ?r) = deals seeded_db @ [snd ?r]" by (elim conjE)
  from t g have p: "Deal.profit_estimate (last (deals (fst ?r)))
      = Fin (of_int (200000 - 85000 - 35000 - 10000))"
    by blast
  from t h have f: "find_one (\<lambda>doc. Deal.id' doc = ''d1'') (deals (fst ?r)) = Some (snd ?r)"
    by blast
  have l: "last (deals (fst ?r)) = snd ?r" unfolding a by simp
  have v: "Deal.profit_estimate (snd ?r) = Fin 70000" using p unfolding l by simp
  have m: "map Deal.profit_estimate (deals (fst ?r)) = [Fin 48000, Fin 70000]"
    unfolding a using v by (simp add: seeded_db_def sample_deal_def)
  have o: "map_option Deal.profit_estimate
      (find_one (\<lambda>doc. Deal.id' doc = ''d1'') (deals (fst ?r))) = Some (Fin 70000)"
    unfolding f using v by simp
  show ?thesis by (intro conjI i g m o)
qed

text \<open>
  C9. Status transitions are unrestricted: when a deal with the given id exists, whatever
  its status, an update that carries a target status succeeds, returns the deal with
  that status, and the stored deal has it afterwards.
\<close>

theorem update_deal_sets_any_status:
  assumes "find_one (\<lambda>doc. Deal.id' doc = deal_id) (deals d) = Some old"
    and "DealUpdate.status u = Some target"
  shows "\<exists>d'. update_deal d deal_id u = Inr (d', Some (set_fields u old))
           \<and> Deal.status (set_fields u old) = target
           \<and> find_one (\<lambda>doc. Deal.id' doc = deal_id) (deals d') = Some (set_fields u old)"
proof -
  have n: "\<not> no_update_data u" using assms(2) by (simp add: no_update_data_def)
  have m: "snd (update_one (\<lambda>doc. Deal.id' doc = deal_id) (set_fields u) (deals d)) = 1"
    using assms(1) by (simp add: update_one_matched)
  have f: "find_one (\<lambda>doc. Deal.id' doc = deal_id)
             (fst (update_one (\<lambda>doc. Deal.id' doc = deal_id) (set_fields u) (deals d)))
           = Some (set_fields u old)"
    using assms(1) by (simp add: find_one_update_one)
  show ?thesis
    using n m f set_fields_status[OF assms(2), of old]
    by (simp add: update_deal_def Let_def)
qed

theorem update_deal_sets_any_status_witness:
  "find_one (\<lambda>doc. Deal.id' doc = ''deal_1'') (deals seeded_db) = Some sample_deal
   \<and> Deal.status sample_deal = IN_DISPOSITION
   \<and> update_deal seeded_db ''deal_1'' close_update
       = Inr (seeded_db\<lparr>deals := [sample_deal\<lparr>Deal.status := CLOSED\<rparr>]\<rparr>,
              Some (sample_deal\<lparr>Deal.status := CLOSED\<rparr>))"
  using update_deal_sets_any_status[of "''deal_1''" seeded_db sample_deal close_update CLOSED]
  by (auto simp: seeded_db_def sample_deal_def close_update_def update_deal_def
      no_update_data_def set_fields_def Let_def)

text \<open>
  C10. Deal creation returns the same deal whatever leads are stored. When no lead has the
  supplied \<^verbatim>\<open>lead_id\<close> the leads are unchanged; otherwise the first lead with that id
  gets stage \<^verbatim>\<open>deal\<close>, none of its other fields changes, and no other lead changes.
\<close>

theorem create_deal_marks_lead:
  "snd (create_deal d new_id now deal_data) = snd (create_deal (d\<lparr>leads := other\<rparr>) new_id now deal_data)
   \<and> (case find_one (\<lambda>l. Lead.id' l = DealCreate.lead_id deal_data) (leads d) of
        None \<Rightarrow> leads (fst (create_deal d new_id now deal_data)) = leads d
      | Some l \<Rightarrow>
          \<exists>i<length (leads d).
             leads d ! i = l \<and> Lead.id' l = DealCreate.lead_id deal_data
             \<and> (\<forall>j<i. Lead.id' (leads d ! j) \<noteq> DealCreate.lead_id deal_data)
             \<and> leads (fst (create_deal d new_id now deal_data))
                 = (leads d)[i := l\<lparr>Lead.stage := DEAL\<rparr>])"
proof -
  have l: "leads (fst (create_deal d new_id now deal_data))
      = fst (update_one (\<lambda>l. Lead.id' l = DealCreate.lead_id deal_data)
               (\<lambda>l. l\<lparr>Lead.stage := DEAL\<rparr>) (leads d))"
    by (simp add: create_deal_def Let_def)
  have 1: "snd (create_deal d new_id now deal_data)
      = snd (create_deal (d\<lparr>leads := other\<rparr>) new_id now deal_data)"
    by (simp add: create_deal_def Let_def)
  show ?thesis
  proof (cases "find_one (\<lambda>l. Lead.id' l = DealCreate.lead_id deal_data) (leads d)")
    case None
    then show ?thesis using 1 by (simp add: l update_one_no_match)
  next
    case (Some x)
    from update_one_first_match[OF Some, of "\<lambda>l. l\<lparr>Lead.stage := DEAL\<rparr>"]
    show ?thesis using 1 Some by (simp add: l)
  qed
qed

theorem create_deal_marks_lead_witness:
  "leads (fst (create_deal example_db ''d1'' ''2026-01-02'' (DealCreate_validate example_body)))
     = [example_lead\<lparr>Lead.stage := DEAL\<rparr>]
   \<and> snd (create_deal example_db ''d1'' ''2026-01-02'' (DealCreate_validate example_body))
     = snd (create_deal (example_db\<lparr>leads := []\<rparr>) ''d1'' ''2026-01-02''
              (DealCreate_validate example_body))
   \<and> leads (fst (create_deal (example_db\<lparr>leads := []\<rparr>) ''d1'' ''2026-01-02''
              (DealCreate_validate example_body))) = []"
  using create_deal_marks_lead[of example_db "''d1''" "''2026-01-02''"
      "DealCreate_validate example_body" "[]"]
  by (simp add: create_deal_def Let_def DealCreate_validate_def example_body_def
      example_db_def example_lead_def)

text \<open>
  C5. For every input mapping the calculator returns exactly the six keys \<^verbatim>\<open>arv\<close>,
  \<^verbatim>\<open>rehab_estimate\<close>, \<^verbatim>\<open>assignment_fee\<close>, \<^verbatim>\<open>max_allowable_offer\<close>,
  \<^verbatim>\<open>profit_at_mao\<close>, \<^verbatim>\<open>seventy_percent_arv\<close>; the last three are the unrounded
  computations rounded to two decimals, the last one being \<^verbatim>\<open>0.70 * arv\<close>. Rounding a
  finite value to two decimals yields the float nearest to \<open>k / 100\<close> for an integer
  \<open>k\<close> with \<open>k / 100\<close> within 0.005 of the value; infinities and NaN are kept.
\<close>

theorem calculator_response_shape:
  "map fst (calculate_mao data) =
     [''arv'', ''rehab_estimate'', ''assignment_fee'', ''max_allowable_offer'',
      ''profit_at_mao'', ''seventy_percent_arv'']
   \<and> map_of (calculate_mao data) ''max_allowable_offer'' =
       Some (py_round2 (mao_expr (dict_get data ''arv'' (Fin 0))
         (dict_get data ''rehab_estimate'' (Fin 0)) (dict_get data ''assignment_fee'' (Fin 10000))))
   \<and> map_of (calculate_mao data) ''profit_at_mao'' =
       Some (py_round2 (profit_at_mao_expr (dict_get data ''arv'' (Fin 0))
         (dict_get data ''rehab_estimate'' (Fin 0)) (dict_get data ''assignment_fee'' (Fin 10000))))
   \<and> map_of (calculate_mao data) ''seventy_percent_arv'' =
       Some (py_round2 (fmul lit_0_70 (dict_get data ''arv'' (Fin 0))))
   \<and> (\<exists>k::int. py_round2 (Fin x) = fl (of_int k / 100) \<and> \<bar>of_int k / 100 - x\<bar> \<le> 1 / 200)
   \<and> py_round2 PInf = PInf \<and> py_round2 NInf = NInf \<and> py_round2 NaN = NaN"
  using py_round2_two_decimals[of x]
  by (simp add: calculate_mao_def Let_def profit_at_mao_expr_def fmul_commute[of lit_0_70])

theorem calculator_response_shape_witness:
  "calculate_mao [''arv'' \<mapsto> Fin 200000, ''rehab_estimate'' \<mapsto> Fin 35000,
                  ''assignment_fee'' \<mapsto> Fin 10000]
     = [(''arv'', Fin 200000), (''rehab_estimate'', Fin 35000), (''assignment_fee'', Fin 10000),
        (''max_allowable_offer'', Fin 95000), (''profit_at_mao'', Fin 60000),
        (''seventy_percent_arv'', Fin 140000)]
   \<and> (\<exists>k::int. py_round2 (Fin (1 / 8)) = fl (of_int k / 100) \<and> \<bar>rat_of_int k / 100 - 1 / 8\<bar> \<le> 1 / 200)"
proof -
  have "calculate_mao [''arv'' \<mapsto> Fin 200000, ''rehab_estimate'' \<mapsto> Fin 35000,
                  ''assignment_fee'' \<mapsto> Fin 10000]
     = [(''arv'', Fin 200000), (''rehab_estimate'', Fin 35000), (''assignment_fee'', Fin 10000),
        (''max_allowable_offer'', Fin 95000), (''profit_at_mao'', Fin 60000),
        (''seventy_percent_arv'', Fin 140000)]"
    by (simp add: calculate_mao_def dict_get_def Let_def mao_expr_def seventy_percent_of_200000)
  moreover have "\<exists>k::int. py_round2 (Fin (1 / 8)) = fl (of_int k / 100) \<and> \<bar>rat_of_int k / 100 - 1 / 8\<bar> \<le> 1 / 200"
    using calculator_response_shape[of Map.empty "1 / 8"] by (elim conjE)
  ultimately show ?thesis by (rule conjI)
qed

text \<open>
  C6. Missing inputs are replaced by defaults before the computation. When the mapping has
  no \<^verbatim>\<open>arv\<close>, no \<^verbatim>\<open>rehab_estimate\<close> or no \<^verbatim>\<open>assignment_fee\<close>, the calculator echoes 0, 0 or
  10000 for that key and computes the offer from 0, 0 or 10000 in its place; a key that is
  present is used as supplied; on the empty mapping the response is
  \<^verbatim>\<open>arv = 0\<close>, \<^verbatim>\<open>rehab_estimate = 0\<close>, \<^verbatim>\<open>assignment_fee = 10000\<close>,
  \<^verbatim>\<open>max_allowable_offer = -10000\<close>, \<^verbatim>\<open>profit_at_mao = 0\<close>,
  \<^verbatim>\<open>seventy_percent_arv = 0\<close>. A deal created from a body without \<^verbatim>\<open>assignment_fee\<close> is
  stored and returned with \<^verbatim>\<open>assignment_fee = 10000\<close> and with both derived fields computed
  from 10000; a supplied fee is stored as supplied. Neither function has an error result.
\<close>

theorem missing_inputs_take_defaults:
  "(data ''arv'' = None \<longrightarrow>
      calculate_mao data = calculate_mao (data(''arv'' \<mapsto> Fin 0))
      \<and> map_of (calculate_mao data) ''arv'' = Some (Fin 0)
      \<and> map_of (calculate_mao data) ''max_allowable_offer''
          = Some (py_round2 (mao_expr (Fin 0) (dict_get data ''rehab_estimate'' (Fin 0))
                    (dict_get data ''assignment_fee'' (Fin 10000))))
      \<and> map_of (calculate_mao data) ''seventy_percent_arv'' = Some (Fin 0))
   \<and> (data ''rehab_estimate'' = None \<longrightarrow>
      calculate_mao data = calculate_mao (data(''rehab_estimate'' \<mapsto> Fin 0))
      \<and> map_of (calculate_mao data) ''rehab_estimate'' = Some (Fin 0)
      \<and> map_of (calculate_mao data) ''max_allowable_offer''
          = Some (py_round2 (mao_expr (dict_get data ''arv'' (Fin 0)) (Fin 0)
                    (dict_get data ''assignment_fee'' (Fin 10000)))))
   \<and> (data ''assignment_fee'' = None \<longrightarrow>
      calculate_mao data = calculate_mao (data(''assignment_fee'' \<mapsto> Fin 10000))
      \<and> map_of (calculate_mao data) ''assignment_fee'' = Some (Fin 10000)
      \<and> map_of (calculate_mao data) ''max_allowable_offer''
          = Some (py_round2 (mao_expr (dict_get data ''arv'' (Fin 0))
                    (dict_get data ''rehab_estimate'' (Fin 0)) (Fin 10000))))
   \<and> (data ''arv'' = Some a \<and> data ''rehab_estimate'' = Some r \<and> data ''assignment_fee'' = Some f
        \<longrightarrow> calculate_mao data =
          [(''arv'', a), (''rehab_estimate'', r), (''assignment_fee'', f),
           (''max_allowable_offer'', py_round2 (mao_expr a r f)),
           (''profit_at_mao'', py_round2 (profit_at_mao_expr a r f)),
           (''seventy_percent_arv'', py_round2 (fmul a lit_0_70))])
   \<and> calculate_mao Map.empty
       = [(''arv'', Fin 0), (''rehab_estimate'', Fin 0), (''assignment_fee'', Fin 10000),
          (''max_allowable_offer'', Fin (- 10000)), (''profit_at_mao'', Fin 0),
          (''seventy_percent_arv'', Fin 0)]
   \<and> (DealCreate_body.assignment_fee b = None \<longrightarrow>
        DealCreate_validate b
          = DealCreate_validate (b\<lparr>DealCreate_body.assignment_fee := Some (Fin 10000)\<rparr>)
        \<and> Deal.assignment_fee
            (last (deals (fst (create_deal d new_id now (DealCreate_validate b))))) = Fin 10000
        \<and> Deal.max_allowable_offer
            (last (deals (fst (create_deal d new_id now (DealCreate_validate b)))))
          = mao_expr (DealCreate_body.arv b) (DealCreate_body.rehab_estimate b) (Fin 10000)
        \<and> Deal.profit_estimate
            (last (deals (fst (create_deal d new_id now (DealCreate_validate b)))))
          = profit_expr (DealCreate_body.arv b) (DealCreate_body.contract_price b)
              (DealCreate_body.rehab_estimate b) (Fin 10000)
        \<and> snd (create_deal d new_id now (DealCreate_validate b))
          = last (deals (fst (create_deal d new_id now (DealCreate_validate b)))))
   \<and> (DealCreate_body.assignment_fee b = Some g \<longrightarrow>
        Deal.assignment_fee
            (last (deals (fst (create_deal d new_id now (DealCreate_validate b))))) = g)"
proof -
  have z: "py_round2 (fmul (Fin 0) lit_0_70) = Fin 0" by (simp add: lit_0_70_value)
  have 1: "data ''arv'' = None \<longrightarrow>
      calculate_mao data = calculate_mao (data(''arv'' \<mapsto> Fin 0))
      \<and> map_of (calculate_mao data) ''arv'' = Some (Fin 0)
      \<and> map_of (calculate_mao data) ''max_allowable_offer''
          = Some (py_round2 (mao_expr (Fin 0) (dict_get data ''rehab_estimate'' (Fin 0))
                    (dict_get data ''assignment_fee'' (Fin 10000))))
      \<and> map_of (calculate_mao data) ''seventy_percent_arv'' = Some (Fin 0)"
    using z by (simp add: calculate_mao_def dict_get_def Let_def)
  have 2: "data ''rehab_estimate'' = None \<longrightarrow>
      calculate_mao data = calculate_mao (data(''rehab_estimate'' \<mapsto> Fin 0))
      \<and> map_of (calculate_mao data) ''rehab_estimate'' = Some (Fin 0)
      \<and> map_of (calculate_mao data) ''max_allowable_offer''
          = Some (py_round2 (mao_expr (dict_get data ''arv'' (Fin 0)) (Fin 0)
                    (dict_get data ''assignment_fee'' (Fin 10000))))"
    by (simp add: calculate_mao_def dict_get_def Let_def)
  have 3: "data ''assignment_fee'' = None \<longrightarrow>
      calculate_mao data = calculate_mao (data(''assignment_fee'' \<mapsto> Fin 10000))
      \<and> map_of (calculate_mao data) ''assignment_fee'' = Some (Fin 10000)
      \<and> map_of (calculate_mao data) ''max_allowable_offer''
          = Some (py_round2 (mao_expr (dict_get data ''arv'' (Fin 0))
                    (dict_get data ''rehab_estimate'' (Fin 0)) (Fin 10000)))"
    by (simp add: calculate_mao_def dict_get_def Let_def)
  have 4: "data ''arv'' = Some a \<and> data ''rehab_estimate'' = Some r \<and> data ''assignment_fee'' = Some f
        \<longrightarrow> calculate_mao data =
          [(''arv'', a), (''rehab_estimate'', r), (''assignment_fee'', f),
           (''max_allowable_offer'', py_round2 (mao_expr a r f)),
           (''profit_at_mao'', py_round2 (profit_at_mao_expr a r f)),
           (''seventy_percent_arv'', py_round2 (fmul a lit_0_70))]"
    by (simp add: calculate_mao_def dict_get_def Let_def profit_at_mao_expr_def)
  have 5: "DealCreate_body.assignment_fee b = None \<longrightarrow>
        DealCreate_validate b
          = DealCreate_validate (b\<lparr>DealCreate_body.assignment_fee := Some (Fin 10000)\<rparr>)
        \<and> Deal.assignment_fee
            (last (deals (fst (create_deal d new_id now (DealCreate_validate b))))) = Fin 10000
        \<and> Deal.max_allowable_offer
            (last (deals (fst (create_deal d new_id now (DealCreate_validate b)))))
          = mao_expr (DealCreate_body.arv b) (DealCreate_body.rehab_estimate b) (Fin 10000)
        \<and> Deal.profit_estimate
            (last (deals (fst (create_deal d new_id now (DealCreate_validate b)))))
          = profit_expr (DealCreate_body.arv b) (DealCreate_body.contract_price b)
              (DealCreate_body.rehab_estimate b) (Fin 10000)
        \<and> snd (create_deal d new_id now (DealCreate_validate b))
          = last (deals (fst (create_deal d new_id now (DealCreate_validate b))))"
    by (simp add: DealCreate_validate_def create_deal_def Let_def insert_one_def)
  have 6: "DealCreate_body.assignment_fee b = Some g \<longrightarrow>
        Deal.assignment_fee
            (last (deals (fst (create_deal d new_id now (DealCreate_validate b))))) = g"
    by (simp add: DealCreate_validate_def create_deal_def Let_def insert_one_def)
  from 1 2 3 4 calculate_mao_empty 5 6 show ?thesis by (intro conjI)
qed

theorem missing_inputs_take_defaults_witness:
  "calculate_mao [''arv'' \<mapsto> Fin 200000, ''rehab_estimate'' \<mapsto> Fin 35000]
     = [(''arv'', Fin 200000), (''rehab_estimate'', Fin 35000), (''assignment_fee'', Fin 10000),
        (''max_allowable_offer'', Fin 95000), (''profit_at_mao'', Fin 60000),
        (''seventy_percent_arv'', Fin 140000)]
   \<and> map_of (calculate_mao [''assignment_fee'' \<mapsto> Fin 5000]) ''arv'' = Some (Fin 0)
   \<and> map_of (calculate_mao [''assignment_fee'' \<mapsto> Fin 5000]) ''rehab_estimate'' = Some (Fin 0)
   \<and> map_of (calculate_mao [''assignment_fee'' \<mapsto> Fin 5000]) ''max_allowable_offer''
       = Some (Fin (- 5000))
   \<and> DealCreate_body.assignment_fee example_body = None
   \<and> Deal.assignment_fee (last (deals (fst
       (create_deal example_db ''d1'' ''2026-01-02'' (DealCreate_validate example_body)))))
     = Fin 10000
   \<and> Deal.max_allowable_offer (last (deals (fst
       (create_deal example_db ''d1'' ''2026-01-02'' (DealCreate_validate example_body)))))
     = Fin 95000
   \<and> Deal.assignment_fee (last (deals (fst
       (create_deal example_db ''d1'' ''2026-01-02'' (DealCreate_validate
          (example_body\<lparr>DealCreate_body.assignment_fee := Some (Fin 12000)\<rparr>))))))
     = Fin 12000"
proof -
  let ?d = "[''arv'' \<mapsto> Fin 200000, ''rehab_estimate'' \<mapsto> Fin 35000]"
  let ?e = "[''assignment_fee'' \<mapsto> Fin 5000]"
  let ?full = "[''arv'' \<mapsto> Fin 200000, ''rehab_estimate'' \<mapsto> Fin 35000,
      ''assignment_fee'' \<mapsto> Fin 10000]"
  note t1 = missing_inputs_take_defaults[of ?d "Fin 200000" "Fin 35000" "Fin 10000"
      example_body example_db "''d1''" "''2026-01-02''"]
  note t2 = missing_inputs_take_defaults[of ?e]
  note t3 = missing_inputs_take_defaults[of ?full "Fin 200000" "Fin 35000" "Fin 10000"
      "example_body\<lparr>DealCreate_body.assignment_fee := Some (Fin 12000)\<rparr>" example_db
      "''d1''" "''2026-01-02''" "Fin 12000"]
  have n1: "?d ''assignment_fee'' = None" by simp
  have n2: "?e ''arv'' = None" "?e ''rehab_estimate'' = None" by simp_all
  have n3: "?full ''arv'' = Some (Fin 200000) \<and> ?full ''rehab_estimate'' = Some (Fin 35000)
      \<and> ?full ''assignment_fee'' = Some (Fin 10000)" by simp
  have n4: "DealCreate_body.assignment_fee example_body = None" by (simp add: example_body_def)
  have n5: "DealCreate_body.assignment_fee
      (example_body\<lparr>DealCreate_body.assignment_fee := Some (Fin 12000)\<rparr>) = Some (Fin 12000)"
    by simp
  note fee_absent = t1[THEN conjunct2, THEN conjunct2, THEN conjunct1, THEN mp, OF n1]
  note all_present = t3[THEN conjunct2, THEN conjunct2, THEN conjunct2, THEN conjunct1,
      THEN mp, OF n3]
  note arv_absent = t2[THEN conjunct1, THEN mp, OF n2(1)]
  note rehab_absent = t2[THEN conjunct2, THEN conjunct1, THEN mp, OF n2(2)]
  note body_absent = t1[THEN conjunct2, THEN conjunct2, THEN conjunct2, THEN conjunct2,
      THEN conjunct2, THEN conjunct1, THEN mp, OF n4]
  note body_present = t3[THEN conjunct2, THEN conjunct2, THEN conjunct2, THEN conjunct2,
      THEN conjunct2, THEN conjunct2, THEN mp, OF n5]
  have "calculate_mao ?d = calculate_mao (?d(''assignment_fee'' \<mapsto> Fin 10000))"
    by (rule fee_absent[THEN conjunct1])
  also have "\<dots> =
          [(''arv'', Fin 200000), (''rehab_estimate'', Fin 35000), (''assignment_fee'', Fin 10000),
           (''max_allowable_offer'', py_round2 (mao_expr (Fin 200000) (Fin 35000) (Fin 10000))),
           (''profit_at_mao'', py_round2 (profit_at_mao_expr (Fin 200000) (Fin 35000) (Fin 10000))),
           (''seventy_percent_arv'', py_round2 (fmul (Fin 200000) lit_0_70))]"
    by (rule all_present)
  also have "\<dots> = [(''arv'', Fin 200000), (''rehab_estimate'', Fin 35000), (''assignment_fee'', Fin 10000),
        (''max_allowable_offer'', Fin 95000), (''profit_at_mao'', Fin 60000),
        (''seventy_percent_arv'', Fin 140000)]"
    by (simp add: mao_expr_def profit_at_mao_expr_def seventy_percent_of_200000)
  finally have c1: "calculate_mao ?d
     = [(''arv'', Fin 200000), (''rehab_estimate'', Fin 35000), (''assignment_fee'', Fin 10000),
        (''max_allowable_offer'', Fin 95000), (''profit_at_mao'', Fin 60000),
        (''seventy_percent_arv'', Fin 140000)]" .
  have c2: "map_of (calculate_mao ?e) ''arv'' = Some (Fin 0)"
    "map_of (calculate_mao ?e) ''rehab_estimate'' = Some (Fin 0)"
    by (rule arv_absent[THEN conjunct2, THEN conjunct1])
       (rule rehab_absent[THEN conjunct2, THEN conjunct1])
  have "map_of (calculate_mao ?e) ''max_allowable_offer''
          = Some (py_round2 (mao_expr (Fin 0) (dict_get ?e ''rehab_estimate'' (Fin 0))
                    (dict_get ?e ''assignment_fee'' (Fin 10000))))"
    by (rule arv_absent[THEN conjunct2, THEN conjunct2, THEN conjunct1])
  then have c3: "map_of (calculate_mao ?e) ''max_allowable_offer'' = Some (Fin (- 5000))"
    by (simp add: dict_get_def mao_expr_def lit_0_70_value)
  have c4: "Deal.assignment_fee (last (deals (fst
       (create_deal example_db ''d1'' ''2026-01-02'' (DealCreate_validate example_body)))))
     = Fin 10000"
    by (rule body_absent[THEN conjunct2, THEN conjunct1])
  have "Deal.max_allowable_offer (last (deals (fst
       (create_deal example_db ''d1'' ''2026-01-02'' (DealCreate_validate example_body)))))
     = mao_expr (DealCreate_body.arv example_body) (DealCreate_body.rehab_estimate example_body)
         (Fin 10000)"
    by (rule body_absent[THEN conjunct2, THEN conjunct2, THEN conjunct1])
  then have c5: "Deal.max_allowable_offer (last (deals (fst
       (create_deal example_db ''d1'' ''2026-01-02'' (DealCreate_validate example_body)))))
     = Fin 95000"
    by (simp add: example_body_def mao_expr_def seventy_percent_of_200000)
  have c6: "Deal.assignment_fee (last (deals (fst
       (create_deal example_db ''d1'' ''2026-01-02'' (DealCreate_validate
          (example_body\<lparr>DealCreate_body.assignment_fee := Some (Fin 12000)\<rparr>))))))
     = Fin 12000"
    by (rule body_present)
  show ?thesis by (intro conjI c1 c2 c3 n4 c4 c5 c6)
qed

text \<open>
  The offer is not a number for every numeric input. With
  \<^verbatim>\<open>arv = 0, rehab_estimate = 2 ** 1023, assignment_fee = 2 ** 1023\<close>, both finite floats, the
  subtraction \<open>- 2 ^ 1023 - 2 ^ 1023\<close> overflows: the offer is \<^verbatim>\<open>-inf\<close>, rounding to two
  decimals keeps it, and the calculator returns \<^verbatim>\<open>-inf\<close> for \<^verbatim>\<open>max_allowable_offer\<close>.
\<close>

theorem calculator_mao_overflows:
  "is_double 0 \<and> is_double (2 ^ 1023)
   \<and> mao_expr (Fin 0) (Fin (2 ^ 1023)) (Fin (2 ^ 1023)) = NInf
   \<and> map_of (calculate_mao [''arv'' \<mapsto> Fin 0, ''rehab_estimate'' \<mapsto> Fin (2 ^ 1023),
                ''assignment_fee'' \<mapsto> Fin (2 ^ 1023)]) ''max_allowable_offer'' = Some NInf"
proof -
  have "map_of (calculate_mao [''arv'' \<mapsto> Fin 0, ''rehab_estimate'' \<mapsto> Fin (2 ^ 1023),
                ''assignment_fee'' \<mapsto> Fin (2 ^ 1023)]) ''max_allowable_offer''
      = Some (py_round2 (mao_expr (Fin 0) (Fin (2 ^ 1023)) (Fin (2 ^ 1023))))"
    by (simp add: calculate_mao_def Let_def dict_get_def)
  then have "map_of (calculate_mao [''arv'' \<mapsto> Fin 0, ''rehab_estimate'' \<mapsto> Fin (2 ^ 1023),
                ''assignment_fee'' \<mapsto> Fin (2 ^ 1023)]) ''max_allowable_offer'' = Some NInf"
    by (simp only: mao_overflow py_round2.simps)
  moreover have "is_double 0" by (simp add: is_double_def)
  ultimately show ?thesis using is_double_pow2_1023 mao_overflow by (intro conjI)
qed

text \<open>
  C7, amended. For finite inputs of magnitude up to \<open>2 ^ 1000\<close>, of either sign, the offer
  is a finite float \<open>m\<close> and the calculator returns a finite \<^verbatim>\<open>max_allowable_offer\<close>
  \<open>v\<close>, the rounding of \<open>m\<close> to two decimals: \<open>v\<close> is within
  \<open>1 / 200 + (\<bar>m\<bar> + 1 / 200) / 2 ^ 53 + 2 ^ - 1075\<close> of \<open>m\<close>, and \<open>v \<le> 0\<close> when \<open>m \<le> 0\<close>: negative
  offers are returned as they are. For \<^verbatim>\<open>arv = 0, rehab = 0, fee = 10000\<close>, and for the empty
  mapping, the returned offer is \<open>- 10000\<close>.
\<close>

theorem calculator_accepts_negative_mao:
  "(\<bar>a\<bar> \<le> 2 ^ 1000 \<and> \<bar>r\<bar> \<le> 2 ^ 1000 \<and> \<bar>f\<bar> \<le> 2 ^ 1000 \<longrightarrow>
      (\<exists>m v. mao_expr (Fin a) (Fin r) (Fin f) = Fin m
         \<and> map_of (calculate_mao [''arv'' \<mapsto> Fin a, ''rehab_estimate'' \<mapsto> Fin r,
                      ''assignment_fee'' \<mapsto> Fin f]) ''max_allowable_offer'' = Some (Fin v)
         \<and> \<bar>v - m\<bar> \<le> 1 / 200 + (\<bar>m\<bar> + 1 / 200) / 2 ^ 53 + 2 powi emin / 2
         \<and> (m \<le> 0 \<longrightarrow> v \<le> 0)))
   \<and> map_of (calculate_mao [''arv'' \<mapsto> Fin 0, ''rehab_estimate'' \<mapsto> Fin 0,
                ''assignment_fee'' \<mapsto> Fin 10000]) ''max_allowable_offer''
       = Some (Fin (- 10000))
   \<and> map_of (calculate_mao Map.empty) ''max_allowable_offer'' = Some (Fin (- 10000))"
proof -
  have 2: "\<exists>m v. mao_expr (Fin a) (Fin r) (Fin f) = Fin m
         \<and> map_of (calculate_mao [''arv'' \<mapsto> Fin a, ''rehab_estimate'' \<mapsto> Fin r,
                      ''assignment_fee'' \<mapsto> Fin f]) ''max_allowable_offer'' = Some (Fin v)
         \<and> \<bar>v - m\<bar> \<le> 1 / 200 + (\<bar>m\<bar> + 1 / 200) / 2 ^ 53 + 2 powi emin / 2
         \<and> (m \<le> 0 \<longrightarrow> v \<le> 0)"
    if "\<bar>a\<bar> \<le> 2 ^ 1000" "\<bar>r\<bar> \<le> 2 ^ 1000" "\<bar>f\<bar> \<le> 2 ^ 1000"
  proof -
    define k where "k = (1000::int)"
    have k: "emin \<le> k" "k \<le> 1021" "0 \<le> k + 2" "k + 2 \<le> 1022"
      by (simp_all add: k_def emin_def)
    have "\<bar>a\<bar> \<le> 2 powi k" "\<bar>r\<bar> \<le> 2 powi k" "\<bar>f\<bar> \<le> 2 powi k"
      using that by (simp_all add: k_def)
    from mao_expr_bounded[OF this k(1,2)]
    obtain m where m: "mao_expr (Fin a) (Fin r) (Fin f) = Fin m" "\<bar>m\<bar> \<le> 2 powi (k + 2)"
      by blast
    from py_round2_bounded[OF m(2) k(3,4)] obtain v where v: "py_round2 (Fin m) = Fin v"
      "\<bar>v - m\<bar> \<le> 1 / 200 + (\<bar>m\<bar> + 1 / 200) / 2 ^ 53 + 2 powi emin / 2"
      by blast
    have "map_of (calculate_mao [''arv'' \<mapsto> Fin a, ''rehab_estimate'' \<mapsto> Fin r,
                      ''assignment_fee'' \<mapsto> Fin f]) ''max_allowable_offer'' = Some (Fin v)"
      using m(1) v(1) by (simp add: calculate_mao_def Let_def dict_get_def)
    moreover have "m \<le> 0 \<longrightarrow> v \<le> 0" using py_round2_nonpos[OF _ v(1)] by blast
    ultimately show ?thesis using m(1) v(2) by blast
  qed
  have 3: "map_of (calculate_mao [''arv'' \<mapsto> Fin 0, ''rehab_estimate'' \<mapsto> Fin 0,
                ''assignment_fee'' \<mapsto> Fin 10000]) ''max_allowable_offer''
       = Some (Fin (- 10000))"
    by (simp add: calculate_mao_def dict_get_def Let_def mao_expr_def lit_0_70_value)
  have 4: "map_of (calculate_mao Map.empty) ''max_allowable_offer'' = Some (Fin (- 10000))"
    by (simp add: calculate_mao_def dict_get_def Let_def mao_expr_def lit_0_70_value)
  from 2 3 4 show ?thesis by blast
qed

theorem calculator_accepts_negative_mao_witness:
  "\<bar>0::rat\<bar> \<le> 2 ^ 1000 \<and> \<bar>35000::rat\<bar> \<le> 2 ^ 1000 \<and> \<bar>10000::rat\<bar> \<le> 2 ^ 1000
   \<and> mao_expr (Fin 0) (Fin 35000) (Fin 10000) = Fin (- 45000)
   \<and> map_of (calculate_mao [''arv'' \<mapsto> Fin 0, ''rehab_estimate'' \<mapsto> Fin 35000,
                ''assignment_fee'' \<mapsto> Fin 10000]) ''max_allowable_offer''
       = Some (Fin (- 45000))
   \<and> (\<exists>m v. mao_expr (Fin 0) (Fin 35000) (Fin 10000) = Fin m
         \<and> map_of (calculate_mao [''arv'' \<mapsto> Fin 0, ''rehab_estimate'' \<mapsto> Fin 35000,
                      ''assignment_fee'' \<mapsto> Fin 10000]) ''max_allowable_offer'' = Some (Fin v)
         \<and> \<bar>v - m\<bar> \<le> 1 / 200 + (\<bar>m\<bar> + 1 / 200) / 2 ^ 53 + 2 powi emin / 2
         \<and> m \<le> 0 \<and> v \<le> 0)"
proof -
  have b: "\<bar>0::rat\<bar> \<le> 2 ^ 1000" "\<bar>35000::rat\<bar> \<le> 2 ^ 1000" "\<bar>10000::rat\<bar> \<le> 2 ^ 1000"
    by simp_all
  then have bb: "\<bar>0::rat\<bar> \<le> 2 ^ 1000 \<and> \<bar>35000::rat\<bar> \<le> 2 ^ 1000 \<and> \<bar>10000::rat\<bar> \<le> 2 ^ 1000"
    by (intro conjI)
  have m: "mao_expr (Fin 0) (Fin 35000) (Fin 10000) = Fin (- 45000)"
    by (simp add: mao_expr_def lit_0_70_value)
  from calculator_accepts_negative_mao[of 0 35000 10000, THEN conjunct1, THEN mp, OF bb]
  obtain m' v where mv: "mao_expr (Fin 0) (Fin 35000) (Fin 10000) = Fin m'"
    "map_of (calculate_mao [''arv'' \<mapsto> Fin 0, ''rehab_estimate'' \<mapsto> Fin 35000,
                      ''assignment_fee'' \<mapsto> Fin 10000]) ''max_allowable_offer'' = Some (Fin v)"
    "\<bar>v - m'\<bar> \<le> 1 / 200 + (\<bar>m'\<bar> + 1 / 200) / 2 ^ 53 + 2 powi emin / 2"
    "m' \<le> 0 \<longrightarrow> v \<le> 0"
    by (elim exE conjE)
  have m0: "m' \<le> 0" using mv(1) m by simp
  with mv(4) have v0: "v \<le> 0" by (rule mp)
  have t: "\<exists>m v. mao_expr (Fin 0) (Fin 35000) (Fin 10000) = Fin m
         \<and> map_of (calculate_mao [''arv'' \<mapsto> Fin 0, ''rehab_estimate'' \<mapsto> Fin 35000,
                      ''assignment_fee'' \<mapsto> Fin 10000]) ''max_allowable_offer'' = Some (Fin v)
         \<and> \<bar>v - m\<bar> \<le> 1 / 200 + (\<bar>m\<bar> + 1 / 200) / 2 ^ 53 + 2 powi emin / 2
         \<and> m \<le> 0 \<and> v \<le> 0"
    by (intro exI[of _ m'] exI[of _ v] conjI mv(1) mv(2) mv(3) m0 v0)
  have c: "map_of (calculate_mao [''arv'' \<mapsto> Fin 0, ''rehab_estimate'' \<mapsto> Fin 35000,
                ''assignment_fee'' \<mapsto> Fin 10000]) ''max_allowable_offer''
       = Some (Fin (- 45000))"
    by (simp add: calculate_mao_def dict_get_def Let_def mao_expr_def lit_0_70_value)
  show ?thesis by (intro conjI b m c t)
qed

text \<open>
  The profit estimate is not exactly linear in the contract price. With
  \<^verbatim>\<open>arv = 200000, rehab = 35000, fee = 10000\<close>, raising the contract price from
  \<^verbatim>\<open>60000.25\<close> by \<^verbatim>\<open>0.01\<close> to \<^verbatim>\<open>60000.26\<close> moves the stored profit from
  \<^verbatim>\<open>94999.75\<close> to \<^verbatim>\<open>94999.73999999999\<close>, which is neither the float
  \<^verbatim>\<open>94999.75 - 0.01\<close> nor the exact difference.
\<close>

theorem profit_not_exactly_linear:
  "is_double 200000 \<and> is_double 35000 \<and> is_double 10000 \<and> is_double (240001 / 4)
   \<and> is_double (5764607523034235 / 576460752303423488)
   \<and> fl (240001 / 4 + 5764607523034235 / 576460752303423488)
       = Fin (8246372942447903 / 137438953472)
   \<and> profit_expr (Fin 200000) (Fin (240001 / 4)) (Fin 35000) (Fin 10000) = Fin (379999 / 4)
   \<and> profit_expr (Fin 200000) (Fin (8246372942447903 / 137438953472)) (Fin 35000) (Fin 10000)
       = Fin (408020776428503 / 4294967296)
   \<and> profit_expr (Fin 200000) (Fin (8246372942447903 / 137438953472)) (Fin 35000) (Fin 10000)
       \<noteq> fsub (profit_expr (Fin 200000) (Fin (240001 / 4)) (Fin 35000) (Fin 10000))
              (Fin (5764607523034235 / 576460752303423488))
   \<and> (408020776428503 / 4294967296 :: rat)
       \<noteq> 379999 / 4 - (8246372942447903 / 137438953472 - 240001 / 4)"
  using is_double_examples contract_price_60000_26 profit_at_60000_25 profit_at_60000_26
    profit_minus_one_cent
  by simp

text \<open>
  C8, amended. For finite floats whose magnitudes sum to at most \<open>2 ^ 1000\<close> the
  profit estimate is a finite float, it is antitone in the contract price, and the profit at
  contract price \<open>c'\<close> differs from the profit at \<open>c\<close> minus \<open>c' - c\<close> by at most
  \<open>(\<bar>arv\<bar> + \<bar>c\<bar> + \<bar>c'\<bar> + \<bar>rehab\<bar> + \<bar>fee\<bar>) / 2 ^ 50\<close>: the decrease is
  \<open>\<Delta>\<close> up to rounding, not exactly.
\<close>

theorem profit_decreases_with_contract_price:
  assumes "is_double a" "is_double c" "is_double c'" "is_double r" "is_double f"
    and "\<bar>a\<bar> + \<bar>c\<bar> + \<bar>c'\<bar> + \<bar>r\<bar> + \<bar>f\<bar> \<le> 2 ^ 1000"
  shows "\<exists>p p'. profit_expr (Fin a) (Fin c) (Fin r) (Fin f) = Fin p
           \<and> profit_expr (Fin a) (Fin c') (Fin r) (Fin f) = Fin p'
           \<and> (c \<le> c' \<longrightarrow> p' \<le> p)
           \<and> \<bar>p' - (p - (c' - c))\<bar> \<le> (\<bar>a\<bar> + \<bar>c\<bar> + \<bar>c'\<bar> + \<bar>r\<bar> + \<bar>f\<bar>) / 2 ^ 50"
proof -
  define S where "S = \<bar>a\<bar> + \<bar>c\<bar> + \<bar>c'\<bar> + \<bar>r\<bar> + \<bar>f\<bar>"
  define T where "T = \<bar>a\<bar> + \<bar>c\<bar> + \<bar>r\<bar> + \<bar>f\<bar>"
  define T' where "T' = \<bar>a\<bar> + \<bar>c'\<bar> + \<bar>r\<bar> + \<bar>f\<bar>"
  define p where "p = fl_fin (fl_fin (fl_fin (a - c) - r) - f)"
  define p' where "p' = fl_fin (fl_fin (fl_fin (a - c') - r) - f)"
  have S: "S \<le> 2 powi 1000" using assms(6) by (simp add: S_def)
  have TS: "T \<le> S" "T' \<le> S" by (simp_all add: T_def T'_def S_def)
  have g: "on_grid a" "on_grid c" "on_grid c'" "on_grid r" "on_grid f"
    using assms(1-5) by (simp_all add: is_double_on_grid)
  have "\<bar>a\<bar> + \<bar>c\<bar> + \<bar>r\<bar> + \<bar>f\<bar> \<le> 2 powi 1000" using S TS(1) unfolding T_def by linarith
  from profit_expr_error[OF g(1,2,4,5) this]
  have 1: "profit_expr (Fin a) (Fin c) (Fin r) (Fin f) = Fin p"
    "\<bar>p - (a - c - r - f)\<bar> \<le> T / 2 ^ 51"
    by (simp_all add: emin_def p_def T_def)
  have "\<bar>a\<bar> + \<bar>c'\<bar> + \<bar>r\<bar> + \<bar>f\<bar> \<le> 2 powi 1000" using S TS(2) unfolding T'_def by linarith
  from profit_expr_error[OF g(1,3,4,5) this]
  have 2: "profit_expr (Fin a) (Fin c') (Fin r) (Fin f) = Fin p'"
    "\<bar>p' - (a - c' - r - f)\<bar> \<le> T' / 2 ^ 51"
    by (simp_all add: emin_def p'_def T'_def)
  have 3: "c \<le> c' \<longrightarrow> p' \<le> p"
    unfolding p_def p'_def by (auto intro: profit_expr_antitone)
  have "\<bar>(p' - (a - c' - r - f)) - (p - (a - c - r - f))\<bar> \<le> S / 1125899906842624"
    using 1(2) 2(2) TS two_chain_arith[of p "a - c - r - f" T p' "a - c' - r - f" T' S]
    by simp
  moreover have "(p' - (a - c' - r - f)) - (p - (a - c - r - f)) = p' - (p - (c' - c))"
    by simp
  ultimately have 4: "\<bar>p' - (p - (c' - c))\<bar> \<le> S / 2 ^ 50" by simp
  from 1(1) 2(1) 3 4 show ?thesis unfolding S_def by blast
qed

theorem profit_decreases_with_contract_price_witness:
  "is_double 200000 \<and> is_double (240001 / 4) \<and> is_double (8246372942447903 / 137438953472)
   \<and> is_double 35000 \<and> is_double 10000
   \<and> \<bar>200000 :: rat\<bar> + \<bar>240001 / 4\<bar> + \<bar>8246372942447903 / 137438953472\<bar> + \<bar>35000\<bar> + \<bar>10000\<bar>
        \<le> 2 ^ 1000
   \<and> (240001 / 4 :: rat) \<le> 8246372942447903 / 137438953472
   \<and> (408020776428503 / 4294967296 :: rat) \<le> 379999 / 4
   \<and> \<bar>408020776428503 / 4294967296 - (379999 / 4 - (8246372942447903 / 137438953472 - 240001 / 4))\<bar>
        \<le> (\<bar>200000 :: rat\<bar> + \<bar>240001 / 4\<bar> + \<bar>8246372942447903 / 137438953472\<bar> + \<bar>35000\<bar>
              + \<bar>10000\<bar>) / 2 ^ 50"
proof -
  have b: "\<bar>200000 :: rat\<bar> + \<bar>240001 / 4\<bar> + \<bar>8246372942447903 / 137438953472\<bar> + \<bar>35000\<bar> + \<bar>10000\<bar>
        \<le> 2 ^ 1000"
    by simp
  from profit_decreases_with_contract_price[OF is_double_examples(1,4,5,2,3) b]
  show ?thesis
    using is_double_examples b by (simp add: profit_at_60000_25 profit_at_60000_26)
qed

text \<open>
  The break-even profit is not \<^verbatim>\<open>0.30 * arv\<close> up to a tolerance that ignores the
  other two inputs, and it does depend on them. With \<^verbatim>\<open>arv = 1, rehab_estimate = 1e20,
  assignment_fee = 0\<close> the offer is \<^verbatim>\<open>0.7 - 1e20\<close>, which rounds to \<^verbatim>\<open>-1e20\<close>; then
  \<^verbatim>\<open>1 - (-1e20)\<close> rounds to \<^verbatim>\<open>1e20\<close> and the calculator returns \<^verbatim>\<open>0.0\<close>, while
  \<^verbatim>\<open>0.30 * 1\<close> is \<^verbatim>\<open>0.3\<close> and the same \<^verbatim>\<open>arv\<close> with no rehab gives
  \<^verbatim>\<open>0.30000000000000004\<close>.
\<close>

theorem profit_at_mao_not_thirty_percent:
  "is_double 1 \<and> is_double 100000000000000000000 \<and> is_double 0
   \<and> profit_at_mao_expr (Fin 1) (Fin 100000000000000000000) (Fin 0) = Fin 0
   \<and> map_of (calculate_mao [''arv'' \<mapsto> Fin 1, ''rehab_estimate'' \<mapsto> Fin 100000000000000000000,
                ''assignment_fee'' \<mapsto> Fin 0]) ''profit_at_mao'' = Some (Fin 0)
   \<and> fmul lit_0_30 (Fin 1) = Fin (5404319552844595 / 18014398509481984)
   \<and> profit_at_mao_expr (Fin 1) (Fin 0) (Fin 0) = Fin (1351079888211149 / 4503599627370496)
   \<and> profit_at_mao_expr (Fin 1) (Fin 100000000000000000000) (Fin 0)
       \<noteq> profit_at_mao_expr (Fin 1) (Fin 0) (Fin 0)"
proof -
  have "map_of (calculate_mao [''arv'' \<mapsto> Fin 1, ''rehab_estimate'' \<mapsto> Fin 100000000000000000000,
                ''assignment_fee'' \<mapsto> Fin 0]) ''profit_at_mao''
      = Some (py_round2 (profit_at_mao_expr (Fin 1) (Fin 100000000000000000000) (Fin 0)))"
    by (simp add: calculate_mao_def Let_def dict_get_def profit_at_mao_expr_def)
  then show ?thesis
    using is_double_1e20 thirty_percent_of_one
    by (simp add: profit_at_mao_cancellation profit_at_mao_no_rehab is_double_def)
qed

text \<open>
  C2, amended. For finite non-negative floats \<^verbatim>\<open>arv\<close>, \<^verbatim>\<open>rehab\<close>, \<^verbatim>\<open>fee\<close> whose sum is at
  most \<open>2 ^ 1000\<close>, the value \<^verbatim>\<open>arv - mao - rehab - fee\<close> computed by the calculator is a
  finite float within \<open>(arv + rehab + fee) / 2 ^ 49 + 2 ^ - 1075\<close> of three tenths of
  \<^verbatim>\<open>arv\<close>, and the response field \<^verbatim>\<open>profit_at_mao\<close> is that value rounded to two
  decimals. The tolerance grows with \<^verbatim>\<open>rehab\<close> and \<^verbatim>\<open>fee\<close>: the value depends on them
  through rounding.
\<close>

theorem profit_at_mao_near_thirty_percent:
  assumes "is_double a" "is_double r" "is_double f" "0 \<le> a" "0 \<le> r" "0 \<le> f"
    and "a + r + f \<le> 2 ^ 1000"
  shows "\<exists>p. profit_at_mao_expr (Fin a) (Fin r) (Fin f) = Fin p
           \<and> \<bar>p - 3 / 10 * a\<bar> \<le> (a + r + f) / 2 ^ 49 + 2 powi emin / 2
           \<and> map_of (calculate_mao [''arv'' \<mapsto> Fin a, ''rehab_estimate'' \<mapsto> Fin r,
                  ''assignment_fee'' \<mapsto> Fin f]) ''profit_at_mao'' = Some (py_round2 (Fin p))"
proof -
  define S where "S = a + r + f"
  define h where "h = (2::rat) powi emin / 2"
  define k where "k = (1000::int)"
  define B where "B = (2::rat) powi k"
  have k: "emin \<le> k" "k \<le> 1021" "emin \<le> k + 2" "k + 2 \<le> 1021"
    by (simp_all add: k_def emin_def)
  have B4: "(2::rat) powi (k + 2) = 4 * B" unfolding B_def by (simp add: power_int_add)
  have S0: "0 \<le> S" using assms(4-6) by (simp add: S_def)
  have SB: "a + r + f \<le> 2 powi k" using assms(7) by (simp add: k_def)
  from mao_expr_error[OF assms(1-6) SB k(1,2)]
  obtain m where m: "mao_expr (Fin a) (Fin r) (Fin f) = Fin m" "on_grid m"
    "\<bar>m\<bar> \<le> 2 * S" "\<bar>m - (7 / 10 * a - r - f)\<bar> \<le> S / 2 ^ 51 + h"
    unfolding S_def h_def by blast
  define T where "T = \<bar>a\<bar> + \<bar>m\<bar> + \<bar>r\<bar> + \<bar>f\<bar>"
  have ab: "\<bar>a\<bar> = a" "\<bar>r\<bar> = r" "\<bar>f\<bar> = f" using assms(4-6) by simp_all
  have TS: "T = S + \<bar>m\<bar>" unfolding T_def S_def ab by simp
  have T3: "T \<le> 3 * S" using m(3) unfolding TS by simp
  have "S \<le> B" using SB unfolding S_def B_def .
  then have "T \<le> 2 powi (k + 2)" using T3 S0 unfolding B4 by linarith
  then have TB: "\<bar>a\<bar> + \<bar>m\<bar> + \<bar>r\<bar> + \<bar>f\<bar> \<le> 2 powi (k + 2)" unfolding T_def .
  from profit_expr_error[OF is_double_on_grid[OF assms(1)] m(2)
      is_double_on_grid[OF assms(2)] is_double_on_grid[OF assms(3)] TB k(3,4)]
  obtain p where p: "profit_expr (Fin a) (Fin m) (Fin r) (Fin f) = Fin p"
    "\<bar>p - (a - m - r - f)\<bar> \<le> T / 2 ^ 51"
    unfolding T_def by blast
  have eq: "profit_at_mao_expr (Fin a) (Fin r) (Fin f) = Fin p"
    using p(1) m(1) by (simp add: profit_at_mao_expr_def profit_expr_def)
  have "\<bar>p - (a - m - r - f)\<bar> + \<bar>m - (7 / 10 * a - r - f)\<bar> \<le> S / 562949953421312 + h"
    using T3 p(2) m(4) by (intro final_arith[of T S]) simp_all
  moreover have "\<bar>p - 3 / 10 * a\<bar> \<le> \<bar>p - (a - m - r - f)\<bar> + \<bar>m - (7 / 10 * a - r - f)\<bar>"
    by linarith
  ultimately have bound: "\<bar>p - 3 / 10 * a\<bar> \<le> S / 2 ^ 49 + h" by simp
  have "map_of (calculate_mao [''arv'' \<mapsto> Fin a, ''rehab_estimate'' \<mapsto> Fin r,
                  ''assignment_fee'' \<mapsto> Fin f]) ''profit_at_mao'' = Some (py_round2 (Fin p))"
    using eq by (simp add: calculate_mao_def Let_def dict_get_def profit_at_mao_expr_def)
  with eq bound show ?thesis unfolding S_def h_def by blast
qed

theorem profit_at_mao_near_thirty_percent_witness:
  "is_double 200000 \<and> is_double 35000 \<and> is_double 10000
   \<and> (200000 + 35000 + 10000 :: rat) \<le> 2 ^ 1000
   \<and> profit_at_mao_expr (Fin 200000) (Fin 35000) (Fin 10000) = Fin 60000
   \<and> (\<exists>p. profit_at_mao_expr (Fin 200000) (Fin 35000) (Fin 10000) = Fin p
         \<and> \<bar>p - 3 / 10 * 200000\<bar> \<le> (200000 + 35000 + 10000) / 2 ^ 49 + 2 powi emin / 2
         \<and> map_of (calculate_mao [''arv'' \<mapsto> Fin 200000, ''rehab_estimate'' \<mapsto> Fin 35000,
                ''assignment_fee'' \<mapsto> Fin 10000]) ''profit_at_mao'' = Some (py_round2 (Fin p)))"
proof -
  have b: "(200000 + 35000 + 10000 :: rat) \<le> 2 ^ 1000" by simp
  have n: "(0::rat) \<le> 200000" "(0::rat) \<le> 35000" "(0::rat) \<le> 10000" by simp_all
  note t = profit_at_mao_near_thirty_percent[OF is_double_examples(1,2,3) n b]
  have v: "profit_at_mao_expr (Fin 200000) (Fin 35000) (Fin 10000) = Fin 60000"
    by (simp add: profit_at_mao_expr_def mao_expr_def seventy_percent_of_200000)
  show ?thesis
    by (intro conjI is_double_examples(1) is_double_examples(2) is_double_examples(3) b v t)
qed

end
